theory Spec2Isabelle
  imports
    Main
    "HOL-Library.Char_ord"
    "HOL-Library.List_Lexorder"
    "HOL-Library.Option_ord"
    "HOL-Library.Product_Lexorder"
begin

section \<open>Clock readings and timestamp text\<close>

text \<open>
  A JavaScript \<open>Date\<close> is its time value: milliseconds since 1970-01-01T00:00:00Z.
  Clock readings and the timestamps of a job are valid dates from the epoch on, so such
  a \<open>Date\<close> is a \<open>nat\<close>; \<open>Date.now()\<close> and \<open>new Date()\<close> are the clock reading \<open>now\<close>
  that every operation receives as an argument. The expiry of a credential is built
  from a provider's answer and can be any \<open>Date\<close>; it has a type of its own below.

  The SQLite columns \<open>scheduled_at\<close>, \<open>created_at\<close> and \<open>updated_at\<close> are declared
  \<open>TIMESTAMP\<close>, which gives them numeric affinity; a timestamp text is not a numeric
  literal, so it is stored as text, and SQLite compares two texts bytewise (the default
  \<open>BINARY\<close> collation). Two renderings occur in the source:
  \<^item> \<open>Date.prototype.toISOString()\<close>: \<open>YYYY-MM-DDTHH:MM:SS.sssZ\<close> (what \<open>addPost\<close> and
    \<open>saveToken\<close> bind);
  \<^item> SQLite's \<open>datetime(...)\<close> and \<open>CURRENT_TIMESTAMP\<close>: \<open>YYYY-MM-DD HH:MM:SS\<close>, in UTC,
    to the second.
  Both are modelled for years with four digits (up to 9999), the range of SQLite's
  date functions.
\<close>

type_synonym jsdate = nat

definition is_leap :: "nat \<Rightarrow> bool" where
  "is_leap y = (y mod 4 = 0 \<and> (y mod 100 \<noteq> 0 \<or> y mod 400 = 0))"

definition days_in_month :: "nat \<Rightarrow> nat \<Rightarrow> nat" where
  "days_in_month y m =
     (if m = 2 then (if is_leap y then 29 else 28)
      else if m = 4 \<or> m = 6 \<or> m = 9 \<or> m = 11 then 30
      else 31)"

text \<open>The proleptic Gregorian calendar, one day at a time from 1970-01-01.\<close>

fun next_day :: "nat \<times> nat \<times> nat \<Rightarrow> nat \<times> nat \<times> nat" where
  "next_day (y, m, d) =
     (if d < days_in_month y m then (y, m, d + 1)
      else if m < 12 then (y, m + 1, 1)
      else (y + 1, 1, 1))"

fun civil_from_days :: "nat \<Rightarrow> nat \<times> nat \<times> nat" where
  "civil_from_days 0 = (1970, 1, 1)"
| "civil_from_days (Suc n) = next_day (civil_from_days n)"

definition digit :: "nat \<Rightarrow> char" where
  "digit d = ''0123456789'' ! (d mod 10)"

definition pad2 :: "nat \<Rightarrow> string" where
  "pad2 n = [digit (n div 10), digit n]"

definition pad3 :: "nat \<Rightarrow> string" where
  "pad3 n = [digit (n div 100), digit (n div 10), digit n]"

definition pad4 :: "nat \<Rightarrow> string" where
  "pad4 n = [digit (n div 1000), digit (n div 100), digit (n div 10), digit n]"

definition date_text :: "nat \<times> nat \<times> nat \<Rightarrow> string" where
  "date_text c = (case c of (y, m, d) \<Rightarrow> pad4 y @ ''-'' @ pad2 m @ ''-'' @ pad2 d)"

definition clock_text :: "nat \<Rightarrow> string" where
  "clock_text s = pad2 (s div 3600) @ '':'' @ pad2 (s div 60 mod 60) @ '':'' @ pad2 (s mod 60)"

text \<open>\<open>datetime(...)\<close> of an instant given in whole seconds since the epoch.\<close>

definition sqlite_datetime :: "nat \<Rightarrow> string" where
  "sqlite_datetime s =
     date_text (civil_from_days (s div 86400)) @ '' '' @ clock_text (s mod 86400)"

text \<open>\<open>datetime('now')\<close> and \<open>CURRENT_TIMESTAMP\<close>: the clock, cut to the second.\<close>

definition datetime_now :: "jsdate \<Rightarrow> string" where
  "datetime_now now = sqlite_datetime (now div 1000)"

definition toISOString :: "jsdate \<Rightarrow> string" where
  "toISOString t =
     date_text (civil_from_days (t div 86400000)) @ ''T''
       @ clock_text (t mod 86400000 div 1000) @ ''.'' @ pad3 (t mod 1000) @ ''Z''"

text \<open>
  \<open>datetime('now', '-N days')\<close> for a whole number \<open>N\<close> of days. An instant before the
  epoch is outside the model's texts; it is earlier than every stored timestamp, which
  is all the source uses it for, so it is kept as \<open>None\<close>.
\<close>

definition datetime_now_minus_days :: "jsdate \<Rightarrow> nat \<Rightarrow> string option" where
  "datetime_now_minus_days now days =
     (if now div 1000 < days * 86400 then None
      else Some (sqlite_datetime (now div 1000 - days * 86400)))"

text \<open>The instants whose renderings have a four-digit year.\<close>

definition year_of_day :: "nat \<Rightarrow> nat" where
  "year_of_day n = fst (civil_from_days n)"

definition in_range_s :: "nat \<Rightarrow> bool" where
  "in_range_s s = (year_of_day (s div 86400) \<le> 9999)"

definition in_range_ms :: "jsdate \<Rightarrow> bool" where
  "in_range_ms t = (year_of_day (t div 86400000) \<le> 9999)"


section \<open>The persistent store (storage/db.ts)\<close>

text \<open>
  The table \<open>posts\<close> is a list of rows in rowid order. Its three timestamp columns hold
  text; a row of the model keeps the instant the text was rendered from, and every SQL
  comparison and \<open>ORDER BY\<close> on such a column is carried out on the rendered text:
  \<^item> \<open>scheduled_at\<close> is \<open>NULL\<close> or \<open>toISOString()\<close> of the \<open>Date\<close> bound by \<open>addPost\<close>
    (milliseconds);
  \<^item> \<open>created_at\<close> and \<open>updated_at\<close> are \<open>CURRENT_TIMESTAMP\<close> / \<open>datetime('now')\<close>
    (whole seconds).
  \<open>seq\<close> is the \<open>AUTOINCREMENT\<close> counter (the largest rowid ever handed out). Every
  statement is assumed to reach a writable store.
\<close>

datatype status = Pending | Completed | Failed

record post_row =
  post_id :: nat
  post_platform :: string
  post_action :: string
  post_status :: status
  scheduled_at :: "jsdate option"
  content_json :: string
  file_path :: "string option"
  result_json :: "string option"
  error_message :: "string option"
  retry_count :: nat
  created_at :: nat
  updated_at :: nat

record token_row =
  token_platform :: string
  access_token :: string
  refresh_token :: "string option"
  expires_at :: "int option"
  token_updated_at :: nat

record db =
  posts :: "post_row list"
  tokens :: "token_row list"
  seq :: nat

record ScheduledJob =
  job_id :: nat
  job_platform :: string
  job_action :: string
  job_status :: status
  scheduledAt :: jsdate
  contentJson :: string
  filePath :: "string option"
  resultJson :: "string option"
  errorMessage :: "string option"
  retryCount :: nat
  createdAt :: jsdate
  updatedAt :: jsdate

text \<open>JavaScript truthiness of an optional string: \<open>undefined\<close>, \<open>null\<close> and \<open>''\<close> are falsy.\<close>

definition truthy :: "string option \<Rightarrow> bool" where
  "truthy s = (case s of None \<Rightarrow> False | Some v \<Rightarrow> v \<noteq> [])"

definition or_null :: "string option \<Rightarrow> string option" where
  "or_null s = (if truthy s then s else None)"

text \<open>
  \<open>new Date(text)\<close> on a text \<open>YYYY-MM-DD HH:MM:SS\<close>, which has no zone designator, reads it
  as local time. Which instant that is depends on the time zone of the process, so it is
  a parameter: \<open>zone s\<close> is the instant \<open>new Date\<close> returns for the text of second \<open>s\<close>.
  In a process running in UTC it is \<open>s * 1000\<close>. Like every clock reading of the model it
  is not before 1970.
\<close>

type_synonym local_zone = "nat \<Rightarrow> jsdate"

text \<open>
  \<open>rowToJob\<close>: a \<open>NULL\<close> \<open>scheduled_at\<close> is replaced by \<open>new Date()\<close>, the clock at the
  moment of the read; an ISO text is read back as the instant it was rendered from.
  \<open>created_at\<close> and \<open>updated_at\<close> are read back as local time.
\<close>

definition rowToJob :: "local_zone \<Rightarrow> jsdate \<Rightarrow> post_row \<Rightarrow> ScheduledJob" where
  "rowToJob zone now row =
     \<lparr> job_id = post_id row,
       job_platform = post_platform row,
       job_action = post_action row,
       job_status = post_status row,
       scheduledAt = (case scheduled_at row of Some t \<Rightarrow> t | None \<Rightarrow> now),
       contentJson = content_json row,
       filePath = file_path row,
       resultJson = result_json row,
       errorMessage = error_message row,
       retryCount = retry_count row,
       createdAt = zone (created_at row),
       updatedAt = zone (updated_at row) \<rparr>"

definition addPost ::
  "db \<Rightarrow> jsdate \<Rightarrow> string \<Rightarrow> string \<Rightarrow> string \<Rightarrow> jsdate option \<Rightarrow> string option \<Rightarrow> db \<times> nat" where
  "addPost d now platform action content sched file =
     (let rowid = Suc (fold max (map post_id (posts d)) (seq d));
          row = \<lparr> post_id = rowid,
                  post_platform = platform,
                  post_action = action,
                  post_status = Pending,
                  scheduled_at = sched,
                  content_json = content,
                  file_path = or_null file,
                  result_json = None,
                  error_message = None,
                  retry_count = 0,
                  created_at = now div 1000,
                  updated_at = now div 1000 \<rparr>
      in (d\<lparr>posts := posts d @ [row], seq := rowid\<rparr>, rowid))"

text \<open>
  The \<open>WHERE\<close> clause of \<open>getPendingJobs\<close>. \<open>scheduled_at <= datetime('now')\<close> compares
  the stored ISO text with SQLite's text; the retry bound is the literal 3.
\<close>

definition ready_row :: "jsdate \<Rightarrow> post_row \<Rightarrow> bool" where
  "ready_row now r =
     (post_status r = Pending
      \<and> (case scheduled_at r of None \<Rightarrow> True | Some t \<Rightarrow> toISOString t \<le> datetime_now now)
      \<and> retry_count r < 3)"

text \<open>
  \<open>ORDER BY scheduled_at ASC, created_at ASC\<close>: \<open>NULL\<close> sorts first, text bytewise. SQL
  leaves the order of rows with equal keys open; SQLite returns them in rowid order, and
  so does the model (the sort is stable).
\<close>

definition pending_order :: "post_row \<Rightarrow> string option \<times> string" where
  "pending_order r = (map_option toISOString (scheduled_at r), sqlite_datetime (created_at r))"

definition select_pending :: "db \<Rightarrow> jsdate \<Rightarrow> post_row list" where
  "select_pending d now = sort_key pending_order (filter (ready_row now) (posts d))"

definition getPendingJobs :: "local_zone \<Rightarrow> db \<Rightarrow> jsdate \<Rightarrow> ScheduledJob list" where
  "getPendingJobs zone d now = map (rowToJob zone now) (select_pending d now)"

definition select_by_id :: "db \<Rightarrow> nat \<Rightarrow> post_row option" where
  "select_by_id d i = find (\<lambda>r. post_id r = i) (posts d)"

definition getJobById :: "local_zone \<Rightarrow> db \<Rightarrow> jsdate \<Rightarrow> nat \<Rightarrow> ScheduledJob option" where
  "getJobById zone d now i = map_option (rowToJob zone now) (select_by_id d i)"

record QueueListOptions =
  opt_status :: "status option"
  opt_platform :: "string option"
  opt_limit :: "nat option"

text \<open>
  \<open>listJobs\<close>: each filter is added only when its option is truthy (a limit of 0 and an
  empty platform are not); \<open>ORDER BY created_at DESC\<close>, rows with equal \<open>created_at\<close> in
  rowid order (a stable sort on the reversed key).
\<close>

definition select_list :: "db \<Rightarrow> QueueListOptions option \<Rightarrow> post_row list" where
  "select_list d options =
     (let by_status = (case options of None \<Rightarrow> None | Some opts \<Rightarrow> opt_status opts);
          by_platform = (case options of None \<Rightarrow> None | Some opts \<Rightarrow> or_null (opt_platform opts));
          lim = (case options of None \<Rightarrow> None | Some opts \<Rightarrow> opt_limit opts);
          rows = filter (\<lambda>r. (case by_status of None \<Rightarrow> True | Some s \<Rightarrow> post_status r = s)
                            \<and> (case by_platform of None \<Rightarrow> True | Some p \<Rightarrow> post_platform r = p))
                   (posts d);
          ordered = rev (sort_key (\<lambda>r. sqlite_datetime (created_at r)) (rev rows))
      in (case lim of None \<Rightarrow> ordered | Some n \<Rightarrow> if n = 0 then ordered else take n ordered))"

definition listJobs ::
  "local_zone \<Rightarrow> db \<Rightarrow> jsdate \<Rightarrow> QueueListOptions option \<Rightarrow> ScheduledJob list" where
  "listJobs zone d now options = map (rowToJob zone now) (select_list d options)"

definition markComplete :: "db \<Rightarrow> jsdate \<Rightarrow> nat \<Rightarrow> string \<Rightarrow> db" where
  "markComplete d now i result =
     d\<lparr>posts := map (\<lambda>r. if post_id r = i
                            then r\<lparr>post_status := Completed, result_json := Some result,
                                   updated_at := now div 1000\<rparr>
                            else r) (posts d)\<rparr>"

definition markFailed :: "db \<Rightarrow> jsdate \<Rightarrow> nat \<Rightarrow> string \<Rightarrow> db" where
  "markFailed d now i msg =
     d\<lparr>posts := map (\<lambda>r. if post_id r = i
                            then r\<lparr>post_status := Failed, error_message := Some msg,
                                   retry_count := retry_count r + 1, updated_at := now div 1000\<rparr>
                            else r) (posts d)\<rparr>"

text \<open>\<open>result.changes\<close>: the number of rows the statement's \<open>WHERE\<close> clause matched.\<close>

definition changes :: "(post_row \<Rightarrow> bool) \<Rightarrow> db \<Rightarrow> nat" where
  "changes P d = length (filter P (posts d))"

definition cancelJob :: "db \<Rightarrow> jsdate \<Rightarrow> nat \<Rightarrow> db \<times> bool" where
  "cancelJob d now i =
     (let hit = (\<lambda>r. post_id r = i \<and> post_status r = Pending)
      in (d\<lparr>posts := map (\<lambda>r. if hit r
                                 then r\<lparr>post_status := Failed,
                                        error_message := Some ''Cancelled by user'',
                                        updated_at := now div 1000\<rparr>
                                 else r) (posts d)\<rparr>,
          changes hit d > 0))"

definition retryJob :: "db \<Rightarrow> jsdate \<Rightarrow> nat \<Rightarrow> db \<times> bool" where
  "retryJob d now i =
     (let hit = (\<lambda>r. post_id r = i \<and> post_status r = Failed)
      in (d\<lparr>posts := map (\<lambda>r. if hit r
                                 then r\<lparr>post_status := Pending, error_message := None,
                                        updated_at := now div 1000\<rparr>
                                 else r) (posts d)\<rparr>,
          changes hit d > 0))"

text \<open>
  \<open>deleteOldPosts\<close>: \<open>created_at < datetime('now', '-N days')\<close> on text, and a status of
  \<open>completed\<close> or \<open>failed\<close>.
\<close>

definition old_terminal :: "jsdate \<Rightarrow> nat \<Rightarrow> post_row \<Rightarrow> bool" where
  "old_terminal now days r =
     ((case datetime_now_minus_days now days of
         None \<Rightarrow> False
       | Some cutoff \<Rightarrow> sqlite_datetime (created_at r) < cutoff)
      \<and> (post_status r = Completed \<or> post_status r = Failed))"

definition deleteOldPosts :: "db \<Rightarrow> jsdate \<Rightarrow> nat \<Rightarrow> db \<times> nat" where
  "deleteOldPosts d now days =
     (d\<lparr>posts := filter (\<lambda>r. \<not> old_terminal now days r) (posts d)\<rparr>,
      changes (old_terminal now days) d)"


section \<open>The job queue (scheduler/queue.ts)\<close>

record QueueAddRequest =
  req_platform :: string
  req_action :: string
  req_content :: string
  req_scheduledAt :: "jsdate option"
  req_filePath :: "string option"

text \<open>
  \<open>addJob\<close>: \<open>req_content\<close> is \<open>JSON.stringify(request.content)\<close>; \<open>req_scheduledAt\<close> is the
  instant the request's \<open>scheduledAt\<close> string denotes, \<open>None\<close> when the string is absent
  or empty, in which case \<open>new Date()\<close> is bound.
\<close>

definition addJob :: "db \<Rightarrow> jsdate \<Rightarrow> QueueAddRequest \<Rightarrow> db \<times> nat" where
  "addJob d now request =
     addPost d now (req_platform request) (req_action request) (req_content request)
       (Some (case req_scheduledAt request of Some t \<Rightarrow> t | None \<Rightarrow> now))
       (req_filePath request)"

definition getReadyJobs :: "local_zone \<Rightarrow> db \<Rightarrow> jsdate \<Rightarrow> ScheduledJob list" where
  "getReadyJobs zone d now = getPendingJobs zone d now"

definition getJob :: "local_zone \<Rightarrow> db \<Rightarrow> jsdate \<Rightarrow> nat \<Rightarrow> ScheduledJob option" where
  "getJob zone d now i = getJobById zone d now i"

definition listQueue ::
  "local_zone \<Rightarrow> db \<Rightarrow> jsdate \<Rightarrow> QueueListOptions option \<Rightarrow> ScheduledJob list" where
  "listQueue zone d now options = listJobs zone d now options"

definition failJob :: "db \<Rightarrow> jsdate \<Rightarrow> nat \<Rightarrow> string \<Rightarrow> db" where
  "failJob d now i err = markFailed d now i err"

definition cancel :: "db \<Rightarrow> jsdate \<Rightarrow> nat \<Rightarrow> db \<times> bool" where
  "cancel d now i = cancelJob d now i"

definition retry :: "db \<Rightarrow> jsdate \<Rightarrow> nat \<Rightarrow> db \<times> bool" where
  "retry d now i = retryJob d now i"

definition cleanup :: "db \<Rightarrow> jsdate \<Rightarrow> nat \<Rightarrow> db \<times> nat" where
  "cleanup d now days = deleteOldPosts d now days"

section \<open>The dispatch loop (scheduler/cron.ts)\<close>

record SkillResult =
  success :: bool
  res_platform :: string
  res_action :: string
  postId :: "string option"
  videoId :: "string option"
  url :: "string option"
  message :: "string option"
  jobId :: "nat option"
  error :: "string option"
  needsAuth :: bool

text \<open>What a \<open>catch\<close> clause receives: an \<open>Error\<close> with its message, or any other value.\<close>

datatype thrown = Error string | NonError

datatype 'a outcome = Returned 'a | Threw thrown

text \<open>
  \<open>executeSkill\<close> spawns \<open>bun run src/skills/<platform>-skill.ts <action> <args>\<close> and waits
  for it. The spawned process is external: given the job (which determines the command)
  and the clock reading at which it is started, it ends with its standard output, its
  standard error and its exit code, or \<open>spawn\<close> throws; either way at a later clock
  reading.
\<close>

record proc_result =
  proc_stdout :: string
  proc_stderr :: string
  proc_exitCode :: nat

type_synonym spawner = "ScheduledJob \<Rightarrow> jsdate \<Rightarrow> proc_result outcome \<times> jsdate"

text \<open>
  \<open>JSON.parse\<close> and \<open>JSON.stringify\<close> are parameters. \<open>js_syntax_error text\<close> is the message
  of the \<open>SyntaxError\<close> that \<open>JSON.parse\<close> throws on \<open>text\<close>, \<open>None\<close> when \<open>text\<close> is JSON;
  \<open>js_as_result text\<close> is then the value, read as a \<open>SkillResult\<close> (a missing field is
  absent, a missing flag is false). The JSON text \<open>null\<close> parses to \<open>null\<close>: reading its
  \<open>success\<close> property throws a \<open>TypeError\<close>, whose message is \<open>js_null_access\<close>.
\<close>

datatype parsed = JsonResult SkillResult | JsonNull

record json_engine =
  js_syntax_error :: "string \<Rightarrow> string option"
  js_as_result :: "string \<Rightarrow> parsed"
  js_stringify :: "SkillResult \<Rightarrow> string"
  js_null_access :: string

text \<open>A number in a template literal: its decimal digits.\<close>

fun show_nat :: "nat \<Rightarrow> string" where
  "show_nat n = (if n < 10 then [digit n] else show_nat (n div 10) @ [digit n])"

declare show_nat.simps [simp del]

definition skill_failure :: "ScheduledJob \<Rightarrow> string \<Rightarrow> SkillResult" where
  "skill_failure job msg =
     \<lparr> success = False, res_platform = job_platform job, res_action = job_action job,
       postId = None, videoId = None, url = None, message = None, jobId = None,
       error = Some msg, needsAuth = False \<rparr>"

definition executeSkill ::
  "json_engine \<Rightarrow> spawner \<Rightarrow> ScheduledJob \<Rightarrow> jsdate \<Rightarrow> parsed outcome \<times> jsdate" where
  "executeSkill json spawn job now =
     (case js_syntax_error json (contentJson job) of
        Some bad \<Rightarrow> (Threw (Error bad), now)
      | None \<Rightarrow>
          (case spawn job now of
             (Threw e, now') \<Rightarrow> (Threw e, now')
           | (Returned proc, now') \<Rightarrow>
               if proc_exitCode proc \<noteq> 0
               then (Returned (JsonResult (skill_failure job
                       (if proc_stderr proc \<noteq> [] then proc_stderr proc
                        else ''Skill exited with code '' @ show_nat (proc_exitCode proc)))), now')
               else (case js_syntax_error json (proc_stdout proc) of
                       Some bad \<Rightarrow>
                         (Returned (JsonResult (skill_failure job
                            (''Invalid JSON output: '' @ proc_stdout proc))), now')
                     | None \<Rightarrow> (Returned (js_as_result json (proc_stdout proc)), now'))))"

text \<open>
  How every skill under \<open>src/skills\<close> ends: it prints its result as JSON and exits with 0
  when the result is a success and with 1 when it is not. \<open>logged_out\<close> and \<open>logged_err\<close>
  are what the skill had written to standard output and standard error before.
\<close>

definition skill_exit :: "json_engine \<Rightarrow> string \<Rightarrow> string \<Rightarrow> SkillResult \<Rightarrow> proc_result" where
  "skill_exit json logged_out logged_err result =
     \<lparr> proc_stdout = logged_out @ js_stringify json result @ [CHR 0x0A],
       proc_stderr = logged_err,
       proc_exitCode = (if success result then 0 else 1) \<rparr>"

definition completeJob :: "json_engine \<Rightarrow> db \<Rightarrow> jsdate \<Rightarrow> nat \<Rightarrow> SkillResult \<Rightarrow> db" where
  "completeJob json d now i result = markComplete d now i (js_stringify json result)"

text \<open>A template literal prints an absent value as \<open>undefined\<close>.\<close>

definition template :: "string option \<Rightarrow> string" where
  "template s = (case s of None \<Rightarrow> ''undefined'' | Some v \<Rightarrow> v)"

definition or_else :: "string option \<Rightarrow> string \<Rightarrow> string" where
  "or_else s dflt = (case s of None \<Rightarrow> dflt | Some v \<Rightarrow> if v = [] then dflt else v)"

definition thrown_message :: "thrown \<Rightarrow> string" where
  "thrown_message e = (case e of Error m \<Rightarrow> m | NonError \<Rightarrow> ''Unknown error'')"

text \<open>
  One iteration of the \<open>for\<close> loop of \<open>processJobs\<close>. \<open>MAX_RETRIES\<close> is the configured
  integer (\<open>parseInt\<close> of the environment variable, 3 when unset). Everything from the call
  of \<open>executeSkill\<close> on is inside the \<open>try\<close> block. Removing the job's file after a success
  does not touch the store and is left out.
\<close>

definition processJob ::
  "json_engine \<Rightarrow> spawner \<Rightarrow> int \<Rightarrow> ScheduledJob \<Rightarrow> db \<times> jsdate \<Rightarrow> db \<times> jsdate" where
  "processJob json spawn MAX_RETRIES job st =
     (case st of (d, now) \<Rightarrow>
        if int (retryCount job) \<ge> MAX_RETRIES
        then (failJob d now (job_id job) ''Max retries exceeded'', now)
        else (case executeSkill json spawn job now of
                (Returned (JsonResult result), now') \<Rightarrow>
                  if success result
                  then (completeJob json d now' (job_id job) result, now')
                  else if needsAuth result
                  then (failJob d now' (job_id job)
                          (''Authentication required: '' @ template (error result)), now')
                  else (failJob d now' (job_id job) (or_else (error result) ''Unknown error''), now')
              | (Returned JsonNull, now') \<Rightarrow>
                  (failJob d now' (job_id job) (js_null_access json), now')
              | (Threw e, now') \<Rightarrow> (failJob d now' (job_id job) (thrown_message e), now')))"

definition processJobs ::
  "json_engine \<Rightarrow> spawner \<Rightarrow> int \<Rightarrow> local_zone \<Rightarrow> db \<Rightarrow> jsdate \<Rightarrow> db \<times> jsdate" where
  "processJobs json spawn MAX_RETRIES zone d now =
     (let jobs = getReadyJobs zone d now
      in if length jobs = 0 then (d, now)
         else fold (processJob json spawn MAX_RETRIES) jobs (d, now))"


section \<open>Credentials (storage/db.ts, auth/token-manager.ts)\<close>

text \<open>
  The expiry of a credential is a \<open>Date\<close> built by code outside the store (a refresh
  function, \<open>calculateExpiration\<close>), so it can be any \<open>Date\<close>: a time value in milliseconds,
  before or after the epoch, or an Invalid Date. The interface declares \<open>accessToken\<close> a
  string; its value is taken from a provider's answer and can be missing at run time,
  which is \<open>None\<close> here.
\<close>

datatype date_value = ValidDate int | InvalidDate

record TokenData =
  tk_platform :: string
  accessToken :: "string option"
  refreshToken :: "string option"
  expiresAt :: "date_value option"
  tk_updatedAt :: "jsdate option"

text \<open>The largest time value of a \<open>Date\<close>; \<open>new Date(v)\<close> beyond it is an Invalid Date.\<close>

definition MAX_TIME_VALUE :: int where
  "MAX_TIME_VALUE = 8640000000000000"

definition new_Date :: "int \<Rightarrow> date_value" where
  "new_Date v = (if - MAX_TIME_VALUE \<le> v \<and> v \<le> MAX_TIME_VALUE then ValidDate v else InvalidDate)"

text \<open>
  The messages of the two errors \<open>saveToken\<close> can throw: the \<open>RangeError\<close> of
  \<open>toISOString()\<close> on an Invalid Date (as worded by Bun's engine), and SQLite's refusal of
  a missing value for the \<open>NOT NULL\<close> column.
\<close>

definition invalid_date_message :: string where
  "invalid_date_message = ''Invalid Date''"

definition not_null_message :: string where
  "not_null_message = ''NOT NULL constraint failed: tokens.access_token''"

text \<open>
  \<open>saveToken\<close>: an upsert on the primary key \<open>platform\<close>. The arguments of the statement are
  evaluated first, so \<open>toISOString()\<close> of an Invalid Date throws before the store is
  touched; then the statement runs and fails on a missing access token. The column
  \<open>expires_at\<close> holds \<open>toISOString()\<close> of the expiry and \<open>getToken\<close> reads it back with
  \<open>new Date\<close>, which returns the same instant; the row keeps the instant.
\<close>

definition saveToken :: "db \<Rightarrow> jsdate \<Rightarrow> TokenData \<Rightarrow> thrown + db" where
  "saveToken d now data =
     (case expiresAt data of
        Some InvalidDate \<Rightarrow> Inl (Error invalid_date_message)
      | expiry \<Rightarrow>
          (case accessToken data of
             None \<Rightarrow> Inl (Error not_null_message)
           | Some access \<Rightarrow>
               (let row = \<lparr> token_platform = tk_platform data,
                            access_token = access,
                            refresh_token = or_null (refreshToken data),
                            expires_at = (case expiry of Some (ValidDate e) \<Rightarrow> Some e | _ \<Rightarrow> None),
                            token_updated_at = now div 1000 \<rparr>
                in if list_ex (\<lambda>r. token_platform r = tk_platform data) (tokens d)
                   then Inr (d\<lparr>tokens := map (\<lambda>r. if token_platform r = tk_platform data
                                                    then row else r) (tokens d)\<rparr>)
                   else Inr (d\<lparr>tokens := tokens d @ [row]\<rparr>))))"

text \<open>\<open>getToken\<close>: \<open>updated_at\<close> is read back as local time, like the timestamps of a job.\<close>

definition getToken :: "local_zone \<Rightarrow> db \<Rightarrow> string \<Rightarrow> TokenData option" where
  "getToken zone d platform =
     (case find (\<lambda>r. token_platform r = platform) (tokens d) of
        None \<Rightarrow> None
      | Some row \<Rightarrow>
          Some \<lparr> tk_platform = token_platform row,
                 accessToken = Some (access_token row),
                 refreshToken = refresh_token row,
                 expiresAt = map_option ValidDate (expires_at row),
                 tk_updatedAt = Some (zone (token_updated_at row)) \<rparr>)"

definition deleteToken :: "db \<Rightarrow> string \<Rightarrow> db \<times> bool" where
  "deleteToken d platform =
     (d\<lparr>tokens := filter (\<lambda>r. token_platform r \<noteq> platform) (tokens d)\<rparr>,
      length (filter (\<lambda>r. token_platform r = platform) (tokens d)) > 0)"

definition REFRESH_BUFFER_MS :: int where
  "REFRESH_BUFFER_MS = 5 * 60 * 1000"

text \<open>The time value of an Invalid Date is \<open>NaN\<close>, and every comparison with it is false.\<close>

definition needsRefresh :: "jsdate \<Rightarrow> TokenData \<Rightarrow> bool" where
  "needsRefresh now token =
     (case expiresAt token of
        None \<Rightarrow> False
      | Some InvalidDate \<Rightarrow> False
      | Some (ValidDate e) \<Rightarrow> e - int now < REFRESH_BUFFER_MS)"

definition isExpired :: "jsdate \<Rightarrow> TokenData \<Rightarrow> bool" where
  "isExpired now token =
     (case expiresAt token of
        None \<Rightarrow> False
      | Some InvalidDate \<Rightarrow> False
      | Some (ValidDate e) \<Rightarrow> e \<le> int now)"

text \<open>
  A refresh function is supplied by the platform module: given the old credential and
  the clock reading at which it is called, it resolves to a credential or \<open>null\<close>, or
  throws, at a later clock reading.
\<close>

type_synonym refresher = "TokenData \<Rightarrow> jsdate \<Rightarrow> TokenData option outcome \<times> jsdate"

text \<open>
  \<open>getValidToken\<close>. Besides the returned credential the model returns the store after
  the call and the arguments of every invocation of the refresh function, in order.
  \<open>saveToken\<close> is called inside the \<open>try\<close> block: when it throws, the error is logged and
  \<open>null\<close> is returned, like when the refresh function throws.
\<close>

record valid_token_result =
  returned :: "TokenData option"
  store :: db
  refresh_calls :: "TokenData list"

definition getValidToken ::
  "local_zone \<Rightarrow> db \<Rightarrow> jsdate \<Rightarrow> string \<Rightarrow> refresher option \<Rightarrow> valid_token_result" where
  "getValidToken zone d now platform refreshFn =
     (case getToken zone d platform of
        None \<Rightarrow> \<lparr>returned = None, store = d, refresh_calls = []\<rparr>
      | Some token \<Rightarrow>
          if \<not> needsRefresh now token \<and> \<not> isExpired now token
          then \<lparr>returned = Some token, store = d, refresh_calls = []\<rparr>
          else if \<not> truthy (refreshToken token)
          then \<lparr>returned = None, store = d, refresh_calls = []\<rparr>
          else (case refreshFn of
                  None \<Rightarrow> \<lparr>returned = None, store = d, refresh_calls = []\<rparr>
                | Some f \<Rightarrow>
                    (case f token now of
                       (Returned (Some newToken), now') \<Rightarrow>
                         (case saveToken d now' newToken of
                            Inr d' \<Rightarrow>
                              \<lparr>returned = Some newToken, store = d', refresh_calls = [token]\<rparr>
                          | Inl e \<Rightarrow>
                              \<lparr>returned = None, store = d, refresh_calls = [token]\<rparr>)
                     | (Returned None, now') \<Rightarrow>
                         \<lparr>returned = None, store = d, refresh_calls = [token]\<rparr>
                     | (Threw e, now') \<Rightarrow>
                         \<lparr>returned = None, store = d, refresh_calls = [token]\<rparr>)))"

definition storeToken :: "db \<Rightarrow> jsdate \<Rightarrow> TokenData \<Rightarrow> thrown + db" where
  "storeToken d now data = saveToken d now data"

definition removeToken :: "db \<Rightarrow> string \<Rightarrow> db \<times> bool" where
  "removeToken d platform = deleteToken d platform"

text \<open>
  \<open>expires_in\<close> is a whole number of seconds; an absent or zero value gives no expiry.
  \<open>calculateExpiration\<close> is \<open>new Date(Date.now() + expiresIn * 1000)\<close>.
\<close>

definition calculateExpiration :: "jsdate \<Rightarrow> int \<Rightarrow> date_value" where
  "calculateExpiration now expiresIn = new_Date (int now + expiresIn * 1000)"

definition createTokenData ::
  "jsdate \<Rightarrow> string \<Rightarrow> string option \<Rightarrow> string option \<Rightarrow> int option \<Rightarrow> TokenData" where
  "createTokenData now platform access refresh expiresIn =
     \<lparr> tk_platform = platform,
       accessToken = access,
       refreshToken = refresh,
       expiresAt = (case expiresIn of
                      None \<Rightarrow> None
                    | Some e \<Rightarrow> if e = 0 then None else Some (calculateExpiration now e)),
       tk_updatedAt = None \<rparr>"


section \<open>The OAuth handshake (auth/oauth-server.ts)\<close>

record OAuthState =
  os_platform :: string
  userId :: string
  codeVerifier :: "string option"

text \<open>The module-level \<open>Map\<close> \<open>oauthStates\<close>, keyed by the state token.\<close>

type_synonym oauth_states = "string \<rightharpoonup> OAuthState"

record pkce =
  pkce_verifier :: string
  pkce_challenge :: string

text \<open>
  Randomness is an input: \<open>generatePKCE\<close> receives \<open>randomBytes(32).toString('base64url')\<close>
  and \<open>generateState\<close> receives \<open>randomBytes(16).toString('hex')\<close>, one fresh draw per
  call. \<open>S256\<close> stands for \<open>createHash('sha256').update(v).digest('base64url')\<close>.
\<close>

definition generatePKCE :: "(string \<Rightarrow> string) \<Rightarrow> string \<Rightarrow> pkce" where
  "generatePKCE S256 draw = \<lparr>pkce_verifier = draw, pkce_challenge = S256 draw\<rparr>"

definition generateState :: "oauth_states \<Rightarrow> string \<Rightarrow> string \<Rightarrow> string \<Rightarrow> oauth_states \<times> string" where
  "generateState states platform uid draw =
     (states(draw \<mapsto> \<lparr>os_platform = platform, userId = uid, codeVerifier = None\<rparr>), draw)"

text \<open>The timer set by \<open>generateState\<close>, when it fires after ten minutes.\<close>

definition expireState :: "oauth_states \<Rightarrow> string \<Rightarrow> oauth_states" where
  "expireState states state = states(state := None)"

definition verifyState :: "oauth_states \<Rightarrow> string \<Rightarrow> OAuthState option \<times> oauth_states" where
  "verifyState states state =
     (case states state of
        Some data \<Rightarrow> (Some data, states(state := None))
      | None \<Rightarrow> (None, states))"

record env =
  YOUTUBE_CLIENT_ID :: "string option"
  YOUTUBE_CLIENT_SECRET :: "string option"
  YOUTUBE_REDIRECT_URI :: "string option"
  FACEBOOK_APP_ID :: "string option"
  FACEBOOK_APP_SECRET :: "string option"
  FACEBOOK_REDIRECT_URI :: "string option"
  TIKTOK_CLIENT_KEY :: "string option"
  TIKTOK_CLIENT_SECRET :: "string option"
  TIKTOK_REDIRECT_URI :: "string option"

text \<open>A URL with its query, and a request to a token endpoint, as lists of parameters.\<close>

record auth_url =
  url_base :: string
  url_params :: "(string \<times> string) list"

definition generateYouTubeAuthUrl ::
  "(string \<Rightarrow> string) \<Rightarrow> env \<Rightarrow> oauth_states \<Rightarrow> string \<Rightarrow> string \<Rightarrow> string \<Rightarrow> string
     \<Rightarrow> thrown + (auth_url \<times> oauth_states)" where
  "generateYouTubeAuthUrl S256 e states uid draw1 draw2 draw3 =
     (if \<not> truthy (YOUTUBE_CLIENT_ID e) \<or> \<not> truthy (YOUTUBE_REDIRECT_URI e)
      then Inl (Error ''YouTube OAuth credentials not configured'')
      else
        (let codeChallenge = pkce_challenge (generatePKCE S256 draw1);
             (states1, state) = generateState states ''youtube'' uid draw2;
             states2 =
               (case states1 state of
                  Some stateData \<Rightarrow>
                    states1(state \<mapsto>
                      stateData\<lparr>codeVerifier := Some (pkce_verifier (generatePKCE S256 draw3))\<rparr>)
                | None \<Rightarrow> states1)
         in Inr (\<lparr> url_base = ''https://accounts.google.com/o/oauth2/v2/auth'',
                    url_params =
                      [(''client_id'', the (YOUTUBE_CLIENT_ID e)),
                       (''redirect_uri'', the (YOUTUBE_REDIRECT_URI e)),
                       (''response_type'', ''code''),
                       (''scope'', ''https://www.googleapis.com/auth/youtube.upload https://www.googleapis.com/auth/youtube.readonly''),
                       (''access_type'', ''offline''),
                       (''state'', state),
                       (''code_challenge'', codeChallenge),
                       (''code_challenge_method'', ''S256''),
                       (''prompt'', ''consent'')] \<rparr>,
                 states2)))"

definition generateFacebookAuthUrl ::
  "env \<Rightarrow> oauth_states \<Rightarrow> string \<Rightarrow> string \<Rightarrow> thrown + (auth_url \<times> oauth_states)" where
  "generateFacebookAuthUrl e states uid draw =
     (if \<not> truthy (FACEBOOK_APP_ID e) \<or> \<not> truthy (FACEBOOK_REDIRECT_URI e)
      then Inl (Error ''Facebook OAuth credentials not configured'')
      else
        (let (states1, state) = generateState states ''facebook'' uid draw
         in Inr (\<lparr> url_base = ''https://www.facebook.com/v18.0/dialog/oauth'',
                    url_params =
                      [(''client_id'', the (FACEBOOK_APP_ID e)),
                       (''redirect_uri'', the (FACEBOOK_REDIRECT_URI e)),
                       (''response_type'', ''code''),
                       (''scope'', ''pages_manage_posts,pages_read_engagement,instagram_basic,instagram_content_publish''),
                       (''state'', state)] \<rparr>,
                 states1)))"

definition generateTikTokAuthUrl ::
  "env \<Rightarrow> oauth_states \<Rightarrow> string \<Rightarrow> string \<Rightarrow> thrown + (auth_url \<times> oauth_states)" where
  "generateTikTokAuthUrl e states uid draw =
     (if \<not> truthy (TIKTOK_CLIENT_KEY e) \<or> \<not> truthy (TIKTOK_REDIRECT_URI e)
      then Inl (Error ''TikTok OAuth credentials not configured'')
      else
        (let (states1, state) = generateState states ''tiktok'' uid draw
         in Inr (\<lparr> url_base = ''https://www.tiktok.com/v2/auth/authorize'',
                    url_params =
                      [(''client_key'', the (TIKTOK_CLIENT_KEY e)),
                       (''redirect_uri'', the (TIKTOK_REDIRECT_URI e)),
                       (''response_type'', ''code''),
                       (''scope'', ''video.upload,video.publish''),
                       (''state'', state)] \<rparr>,
                 states1)))"

record http_request =
  rq_method :: string
  rq_url :: string
  rq_params :: "(string \<times> string) list"

record http_response =
  ok :: bool
  body_text :: string
  json_access_token :: "string option"
  json_refresh_token :: "string option"
  json_expires_in :: "int option"

text \<open>
  \<open>fetch\<close> is external: it resolves to a response or rejects. Each exchange returns the
  requests it has sent, in order, and either what it threw (\<open>storeToken\<close> can throw too)
  or the store after \<open>storeToken\<close>.
\<close>

type_synonym fetcher = "http_request \<Rightarrow> http_response outcome"

definition exchangeYouTubeCode ::
  "fetcher \<Rightarrow> env \<Rightarrow> oauth_states \<Rightarrow> db \<Rightarrow> jsdate \<Rightarrow> string \<Rightarrow> string
     \<Rightarrow> http_request list \<times> (thrown + db)" where
  "exchangeYouTubeCode fetch e states d now code state =
     (if \<not> truthy (YOUTUBE_CLIENT_ID e) \<or> \<not> truthy (YOUTUBE_CLIENT_SECRET e)
         \<or> \<not> truthy (YOUTUBE_REDIRECT_URI e)
      then ([], Inl (Error ''YouTube OAuth credentials not configured''))
      else
        (let verifier = (case states state of None \<Rightarrow> None | Some stateData \<Rightarrow> codeVerifier stateData);
             request =
               \<lparr> rq_method = ''POST'',
                 rq_url = ''https://oauth2.googleapis.com/token'',
                 rq_params =
                   [(''client_id'', the (YOUTUBE_CLIENT_ID e)),
                    (''client_secret'', the (YOUTUBE_CLIENT_SECRET e)),
                    (''code'', code),
                    (''redirect_uri'', the (YOUTUBE_REDIRECT_URI e)),
                    (''grant_type'', ''authorization_code'')]
                   @ (if truthy verifier then [(''code_verifier'', the verifier)] else []) \<rparr>
         in (case fetch request of
               Threw err \<Rightarrow> ([request], Inl err)
             | Returned response \<Rightarrow>
                 if \<not> ok response
                 then ([request], Inl (Error (''Token exchange failed: '' @ body_text response)))
                 else ([request],
                       storeToken d now
                         (createTokenData now ''youtube'' (json_access_token response)
                            (json_refresh_token response) (json_expires_in response))))))"

definition exchangeFacebookCode ::
  "fetcher \<Rightarrow> env \<Rightarrow> db \<Rightarrow> jsdate \<Rightarrow> string \<Rightarrow> http_request list \<times> (thrown + db)" where
  "exchangeFacebookCode fetch e d now code =
     (if \<not> truthy (FACEBOOK_APP_ID e) \<or> \<not> truthy (FACEBOOK_APP_SECRET e)
         \<or> \<not> truthy (FACEBOOK_REDIRECT_URI e)
      then ([], Inl (Error ''Facebook OAuth credentials not configured''))
      else
        (let bare = \<lparr> rq_method = ''GET'',
                      rq_url = ''https://graph.facebook.com/v18.0/oauth/access_token'',
                      rq_params = [] \<rparr>;
             request = bare\<lparr> rq_params :=
                          [(''client_id'', the (FACEBOOK_APP_ID e)),
                           (''client_secret'', the (FACEBOOK_APP_SECRET e)),
                           (''code'', code),
                           (''redirect_uri'', the (FACEBOOK_REDIRECT_URI e))] \<rparr>
         in (case fetch bare of
               Threw err \<Rightarrow> ([bare], Inl err)
             | Returned unused \<Rightarrow>
                 (case fetch request of
                    Threw err \<Rightarrow> ([bare, request], Inl err)
                  | Returned response \<Rightarrow>
                      if \<not> ok response
                      then ([bare, request],
                            Inl (Error (''Token exchange failed: '' @ body_text response)))
                      else ([bare, request],
                            storeToken d now
                              (createTokenData now ''facebook'' (json_access_token response)
                                 None (json_expires_in response)))))))"

definition exchangeTikTokCode ::
  "fetcher \<Rightarrow> env \<Rightarrow> db \<Rightarrow> jsdate \<Rightarrow> string \<Rightarrow> http_request list \<times> (thrown + db)" where
  "exchangeTikTokCode fetch e d now code =
     (if \<not> truthy (TIKTOK_CLIENT_KEY e) \<or> \<not> truthy (TIKTOK_CLIENT_SECRET e)
         \<or> \<not> truthy (TIKTOK_REDIRECT_URI e)
      then ([], Inl (Error ''TikTok OAuth credentials not configured''))
      else
        (let request =
               \<lparr> rq_method = ''POST'',
                 rq_url = ''https://open.tiktokapis.com/v2/oauth/token/'',
                 rq_params =
                   [(''client_key'', the (TIKTOK_CLIENT_KEY e)),
                    (''client_secret'', the (TIKTOK_CLIENT_SECRET e)),
                    (''code'', code),
                    (''redirect_uri'', the (TIKTOK_REDIRECT_URI e)),
                    (''grant_type'', ''authorization_code'')] \<rparr>
         in (case fetch request of
               Threw err \<Rightarrow> ([request], Inl err)
             | Returned response \<Rightarrow>
                 if \<not> ok response
                 then ([request], Inl (Error (''Token exchange failed: '' @ body_text response)))
                 else ([request],
                       storeToken d now
                         (createTokenData now ''tiktok'' (json_access_token response)
                            (json_refresh_token response) (json_expires_in response))))))"

text \<open>
  The request handler of \<open>startOAuthServer\<close>. A request is the health probe, a callback
  \<open>/auth/<platform>/callback\<close> with its \<open>code\<close>, \<open>state\<close> and \<open>error\<close> query parameters, or
  anything else. The reply is the status code and which page was written.
\<close>

datatype request = Health | Callback string "string option" "string option" "string option" | Other

datatype page =
    HealthOk
  | AuthenticationFailed
  | InvalidRequest
  | InvalidState
  | AuthenticationSuccessful
  | AuthenticationError string
  | NotFound

record reply =
  rp_status :: nat
  rp_page :: page
  rp_states :: oauth_states
  rp_db :: db
  rp_sent :: "http_request list"

definition handleRequest ::
  "fetcher \<Rightarrow> env \<Rightarrow> oauth_states \<Rightarrow> db \<Rightarrow> jsdate \<Rightarrow> request \<Rightarrow> reply" where
  "handleRequest fetch e states d now rq =
     (case rq of
        Health \<Rightarrow> \<lparr>rp_status = 200, rp_page = HealthOk, rp_states = states, rp_db = d, rp_sent = []\<rparr>
      | Other \<Rightarrow> \<lparr>rp_status = 404, rp_page = NotFound, rp_states = states, rp_db = d, rp_sent = []\<rparr>
      | Callback platform code state err \<Rightarrow>
          if truthy err
          then \<lparr>rp_status = 400, rp_page = AuthenticationFailed, rp_states = states, rp_db = d,
                rp_sent = []\<rparr>
          else if \<not> truthy code \<or> \<not> truthy state
          then \<lparr>rp_status = 400, rp_page = InvalidRequest, rp_states = states, rp_db = d,
                rp_sent = []\<rparr>
          else
            (case verifyState states (the state) of
               (None, states') \<Rightarrow>
                 \<lparr>rp_status = 400, rp_page = InvalidState, rp_states = states', rp_db = d,
                  rp_sent = []\<rparr>
             | (Some stateData, states') \<Rightarrow>
                 (let (sent, result) =
                        (if platform = ''youtube''
                         then exchangeYouTubeCode fetch e states' d now (the code) (the state)
                         else if platform = ''facebook''
                         then exchangeFacebookCode fetch e d now (the code)
                         else if platform = ''tiktok''
                         then exchangeTikTokCode fetch e d now (the code)
                         else ([], Inl (Error (''Unknown platform: '' @ platform))))
                  in (case result of
                        Inr d' \<Rightarrow>
                          \<lparr>rp_status = 200, rp_page = AuthenticationSuccessful,
                           rp_states = states', rp_db = d', rp_sent = sent\<rparr>
                      | Inl thrown \<Rightarrow>
                          \<lparr>rp_status = 500, rp_page = AuthenticationError (thrown_message thrown),
                           rp_states = states', rp_db = d, rp_sent = sent\<rparr>))))"

section \<open>Stores in range, a full YouTube handshake, and sample data\<close>

text \<open>A row whose timestamps all render with a four-digit year.\<close>

definition row_in_range :: "post_row \<Rightarrow> bool" where
  "row_in_range r = (in_range_s (created_at r)
     \<and> (case scheduled_at r of None \<Rightarrow> True | Some t \<Rightarrow> in_range_ms t))"

text \<open>A credential that \<open>saveToken\<close> can store.\<close>

definition storable :: "TokenData \<Rightarrow> bool" where
  "storable data = (expiresAt data \<noteq> Some InvalidDate \<and> accessToken data \<noteq> None)"

text \<open>
  A complete YouTube handshake on an empty session map: the authorization URL is
  generated from three random draws, then the provider redirects to the callback with
  the issued state token. The result collects the \<open>code_challenge\<close> of the URL, the
  verifier stored under the state token, and the \<open>code_verifier\<close> parameter of every
  token request the callback sends.
\<close>

definition youtube_handshake ::
  "(string \<Rightarrow> string) \<Rightarrow> fetcher \<Rightarrow> env \<Rightarrow> db \<Rightarrow> jsdate \<Rightarrow> string \<Rightarrow> string \<Rightarrow> string \<Rightarrow> string
     \<Rightarrow> string \<Rightarrow> (string option \<times> string option \<times> string option list) option" where
  "youtube_handshake S256 fetch e d now uid draw1 draw2 draw3 code =
     (case generateYouTubeAuthUrl S256 e Map.empty uid draw1 draw2 draw3 of
        Inl thrown \<Rightarrow> None
      | Inr (u, states) \<Rightarrow>
          Some (map_of (url_params u) ''code_challenge'',
                (case states draw2 of None \<Rightarrow> None | Some stateData \<Rightarrow> codeVerifier stateData),
                map (\<lambda>rq. map_of (rq_params rq) ''code_verifier'')
                  (rp_sent (handleRequest fetch e states d now
                              (Callback ''youtube'' (Some code) (Some draw2) None)))))"

text \<open>Sample rows, stores and collaborators on which the theorems are instantiated.\<close>

definition example_unscheduled :: post_row where
  "example_unscheduled =
     \<lparr> post_id = 1, post_platform = ''youtube'', post_action = ''upload'', post_status = Pending,
       scheduled_at = None, content_json = ''{}'', file_path = None, result_json = None,
       error_message = None, retry_count = 0, created_at = 10, updated_at = 10 \<rparr>"

definition example_failed :: post_row where
  "example_failed =
     \<lparr> post_id = 2, post_platform = ''facebook'', post_action = ''post'', post_status = Failed,
       scheduled_at = Some 36000000, content_json = ''{}'', file_path = None, result_json = None,
       error_message = Some ''boom'', retry_count = 1, created_at = 20, updated_at = 25 \<rparr>"

definition example_completed :: post_row where
  "example_completed =
     \<lparr> post_id = 3, post_platform = ''tiktok'', post_action = ''upload'', post_status = Completed,
       scheduled_at = Some 5000, content_json = ''{}'', file_path = None, result_json = Some ''{}'',
       error_message = None, retry_count = 0, created_at = 30, updated_at = 35 \<rparr>"

definition example_due :: post_row where
  "example_due =
     \<lparr> post_id = 4, post_platform = ''youtube'', post_action = ''upload'', post_status = Pending,
       scheduled_at = Some 1000, content_json = ''{}'', file_path = None, result_json = None,
       error_message = None, retry_count = 0, created_at = 40, updated_at = 40 \<rparr>"

definition example_retried :: post_row where
  "example_retried =
     \<lparr> post_id = 5, post_platform = ''youtube'', post_action = ''upload'', post_status = Pending,
       scheduled_at = None, content_json = ''{}'', file_path = None, result_json = None,
       error_message = None, retry_count = 3, created_at = 50, updated_at = 60 \<rparr>"

definition retried_db :: db where
  "retried_db = \<lparr> posts = [example_retried], tokens = [], seq = 5 \<rparr>"

definition example_db :: db where
  "example_db =
     \<lparr> posts = [example_unscheduled, example_failed, example_completed, example_due],
       tokens = [], seq = 4 \<rparr>"

definition empty_db :: db where
  "empty_db = \<lparr> posts = [], tokens = [], seq = 0 \<rparr>"

definition example_request :: QueueAddRequest where
  "example_request =
     \<lparr> req_platform = ''youtube'', req_action = ''upload'', req_content = ''{}'',
       req_scheduledAt = None, req_filePath = None \<rparr>"

definition example_env :: env where
  "example_env =
     \<lparr> YOUTUBE_CLIENT_ID = Some ''client'', YOUTUBE_CLIENT_SECRET = Some ''secret'',
       YOUTUBE_REDIRECT_URI = Some ''http://localhost:3000/auth/youtube/callback'',
       FACEBOOK_APP_ID = None, FACEBOOK_APP_SECRET = None, FACEBOOK_REDIRECT_URI = None,
       TIKTOK_CLIENT_KEY = None, TIKTOK_CLIENT_SECRET = None, TIKTOK_REDIRECT_URI = None \<rparr>"

definition example_response :: http_response where
  "example_response =
     \<lparr> ok = True, body_text = '''', json_access_token = Some ''access'',
       json_refresh_token = Some ''refresh'', json_expires_in = Some 3600 \<rparr>"

definition example_fetch :: fetcher where
  "example_fetch rq = Returned example_response"

definition example_auth_failure :: SkillResult where
  "example_auth_failure =
     \<lparr> success = False, res_platform = ''youtube'', res_action = ''upload'', postId = None,
       videoId = None, url = None, message = None, jobId = None,
       error = Some ''YouTube authentication required. Run /auth youtube'', needsAuth = True \<rparr>"

text \<open>A process five hours behind UTC.\<close>

definition example_zone :: local_zone where
  "example_zone s = s * 1000 + 18000000"

text \<open>
  A JSON engine for the samples, which print and read one result only: the sample result
  above, as \<open>JSON.stringify\<close> prints it, and every text read is that one.
\<close>

definition example_json :: json_engine where
  \<open>example_json =
     \<lparr> js_syntax_error = (\<lambda>text. None),
       js_as_result = (\<lambda>text. JsonResult example_auth_failure),
       js_stringify = (\<lambda>result. ''{"success":false,"platform":"youtube","action":"upload","needsAuth":true,"error":"YouTube authentication required. Run /auth youtube"}''),
       js_null_access = ''null is not an object'' \<rparr>\<close>

text \<open>
  A skill as they are under \<open>src/skills\<close>, reporting what \<open>uploadVideo\<close> returns when no
  YouTube credential is stored, and one that prints the same result but exits with 0.
\<close>

definition example_skill :: spawner where
  "example_skill job started =
     (Returned (skill_exit example_json [] [] example_auth_failure), started + 500)"

definition zero_exit_skill :: spawner where
  "zero_exit_skill job started =
     (Returned ((skill_exit example_json [] [] example_auth_failure)\<lparr>proc_exitCode := 0\<rparr>),
      started + 500)"

definition example_token_row :: token_row where
  "example_token_row =
     \<lparr> token_platform = ''youtube'', access_token = ''old-access'',
       refresh_token = Some ''refresh-1'', expires_at = Some 1000000, token_updated_at = 0 \<rparr>"

definition example_token_db :: db where
  "example_token_db = \<lparr> posts = [], tokens = [example_token_row], seq = 0 \<rparr>"

definition example_token :: TokenData where
  "example_token =
     \<lparr> tk_platform = ''youtube'', accessToken = Some ''old-access'',
       refreshToken = Some ''refresh-1'', expiresAt = Some (ValidDate 1000000),
       tk_updatedAt = Some 18000000 \<rparr>"

definition example_refreshed :: TokenData where
  "example_refreshed =
     \<lparr> tk_platform = ''youtube'', accessToken = Some ''new-access'',
       refreshToken = Some ''refresh-1'', expiresAt = Some (ValidDate 5000000),
       tk_updatedAt = None \<rparr>"

definition example_refresher :: refresher where
  "example_refresher token started = (Returned (Some example_refreshed), started + 2000)"

definition failing_refresher :: refresher where
  "failing_refresher token started = (Threw (Error ''network''), started + 2000)"

definition null_refresher :: refresher where
  "null_refresher token started = (Returned None, started + 2000)"

text \<open>
  A refresh function whose credential has an expiry out of the range of a \<open>Date\<close>, as
  \<open>createTokenData\<close> builds it from a provider's \<open>expires_in\<close> of \<open>10^16\<close> seconds.
\<close>

definition example_unstorable :: TokenData where
  "example_unstorable =
     createTokenData 900000 ''youtube'' (Some ''new-access'') (Some ''refresh-1'')
       (Some 10000000000000000)"

definition unstorable_refresher :: refresher where
  "unstorable_refresher token started = (Returned (Some example_unstorable), started + 2000)"

text \<open>The session map after \<open>generateYouTubeAuthUrl\<close> on an empty one.\<close>

definition youtube_states :: oauth_states where
  "youtube_states =
     (case generateYouTubeAuthUrl (\<lambda>v. v) example_env Map.empty ''42'' ''verifier-one'' ''5f3a''
             ''verifier-two'' of
        Inr (u, states) \<Rightarrow> states
      | Inl thrown \<Rightarrow> Map.empty)"

section \<open>Evaluating the samples\<close>

lemmas example_defs = example_db_def example_unscheduled_def example_failed_def
  example_completed_def example_due_def empty_db_def example_request_def example_env_def
  example_response_def example_fetch_def example_auth_failure_def example_zone_def
  example_json_def example_skill_def zero_exit_skill_def
  example_token_row_def example_token_db_def example_token_def example_refreshed_def
  example_refresher_def failing_refresher_def null_refresher_def example_retried_def
  retried_db_def example_unstorable_def unstorable_refresher_def

lemmas render_defs = toISOString_def datetime_now_def sqlite_datetime_def date_text_def
  clock_text_def pad2_def pad3_def pad4_def digit_def days_in_month_def is_leap_def

lemma civil_numeral:
  "civil_from_days (numeral k) = next_day (civil_from_days (pred_numeral k))"
  by (simp add: numeral_eq_Suc)

section \<open>Decimal fields and bytewise order\<close>

lemma lt10_cases:
  "d < (10::nat) \<Longrightarrow> d = 0 \<or> d = 1 \<or> d = 2 \<or> d = 3 \<or> d = 4 \<or> d = 5 \<or> d = 6 \<or> d = 7 \<or> d = 8 \<or> d = 9"
  by arith

lemma digit_code: "d < 10 \<Longrightarrow> of_char (digit d) = (48 + d :: nat)"
  by (drule lt10_cases) (auto simp add: digit_def)

lemma digit_less_iff: "a < 10 \<Longrightarrow> b < 10 \<Longrightarrow> digit a < digit b \<longleftrightarrow> a < b"
  by (simp add: less_char_def digit_code)

lemma digit_eq_iff: "a < 10 \<Longrightarrow> b < 10 \<Longrightarrow> digit a = digit b \<longleftrightarrow> a = b"
proof -
  assume a: "a < 10" and b: "b < 10"
  have "digit a = digit b \<Longrightarrow> a = b"
  proof -
    assume "digit a = digit b"
    then have "(of_char (digit a) :: nat) = of_char (digit b)" by simp
    then show "a = b" by (simp add: digit_code a b)
  qed
  then show ?thesis by auto
qed

lemma digit_mod: "digit (n mod 10) = digit n"
  by (simp add: digit_def)

lemma append_less_same_length:
  fixes u v :: "'a::linorder list"
  assumes "length u = length v"
  shows "u @ x < v @ y \<longleftrightarrow> u < v \<or> u = v \<and> x < y"
  using assms by (induction u v rule: list_induct2) auto

lemma div_less_imp_less:
  fixes a b k :: nat
  assumes "a div k < b div k"
  shows "a < b"
proof (rule ccontr)
  assume "\<not> a < b"
  then have "b div k \<le> a div k" by (simp add: div_le_mono)
  with assms show False by simp
qed

lemma divmod_lex:
  fixes a b k :: nat
  shows "a < b \<longleftrightarrow> a div k < b div k \<or> (a div k = b div k \<and> a mod k < b mod k)"
proof (cases "a div k = b div k")
  case True
  have "a = k * (a div k) + a mod k" and "b = k * (b div k) + b mod k"
    by simp_all
  then have "a < b \<longleftrightarrow> a mod k < b mod k"
    using True by (metis nat_add_left_cancel_less)
  then show ?thesis using True by simp
next
  case False
  then consider "a div k < b div k" | "b div k < a div k" by linarith
  then show ?thesis
  proof cases
    case 1
    then show ?thesis using div_less_imp_less [OF 1] by simp
  next
    case 2
    then show ?thesis using div_less_imp_less [OF 2] by simp
  qed
qed

lemma divmod_eq: "(a::nat) = b \<longleftrightarrow> a div k = b div k \<and> a mod k = b mod k"
  by (metis div_mult_mod_eq)

lemma pad2_less_iff:
  assumes "a < 100" "b < 100"
  shows "pad2 a < pad2 b \<longleftrightarrow> a < b"
proof -
  have d: "a div 10 < 10" "b div 10 < 10" "a mod 10 < 10" "b mod 10 < 10"
    using assms by simp_all
  have "pad2 a < pad2 b \<longleftrightarrow>
      (a div 10 < b div 10 \<or> a div 10 = b div 10 \<and> a mod 10 < b mod 10)"
    unfolding pad2_def
    using digit_less_iff [OF d(1) d(2)] digit_eq_iff [OF d(1) d(2)] digit_less_iff [OF d(3) d(4)]
    by (simp add: digit_mod)
  then show ?thesis using divmod_lex [of a b 10] by simp
qed

lemma pad2_eq_iff:
  assumes "a < 100" "b < 100"
  shows "pad2 a = pad2 b \<longleftrightarrow> a = b"
proof -
  have d: "a div 10 < 10" "b div 10 < 10" "a mod 10 < 10" "b mod 10 < 10"
    using assms by simp_all
  have "pad2 a = pad2 b \<longleftrightarrow> (a div 10 = b div 10 \<and> a mod 10 = b mod 10)"
    unfolding pad2_def
    using digit_eq_iff [OF d(1) d(2)] digit_eq_iff [OF d(3) d(4)]
    by (simp add: digit_mod)
  then show ?thesis using divmod_eq [of a b 10] by simp
qed

lemma length_pad [simp]: "length (pad2 n) = 2" "length (pad3 n) = 3" "length (pad4 n) = 4"
  by (simp_all add: pad2_def pad3_def pad4_def)

lemma digit_cong: "a mod 10 = b mod 10 \<Longrightarrow> digit a = digit b"
  by (simp add: digit_def)

lemma mod_div_shift:
  fixes n :: nat
  shows "n mod (k * 10) div k mod 10 = n div k mod 10"
proof -
  have "n mod (k * 10) = k * (n div k mod 10) + n mod k"
    by (rule mod_mult2_eq)
  then show ?thesis
    by (cases "k = 0") simp_all
qed

lemma pad3_split: "pad3 n = digit (n div 100) # pad2 (n mod 100)"
proof -
  have "n mod 100 div 10 mod 10 = n div 10 mod 10"
    using mod_div_shift [of n 10] by simp
  then have a: "digit (n mod 100 div 10) = digit (n div 10)"
    by (rule digit_cong)
  have "n mod 100 mod 10 = n mod 10"
    by (simp add: mod_mod_cancel)
  then have b: "digit (n mod 100) = digit n"
    by (rule digit_cong)
  show ?thesis
    by (simp add: pad3_def pad2_def a b)
qed

lemma pad4_split: "pad4 n = digit (n div 1000) # pad3 (n mod 1000)"
proof -
  have "n mod 1000 div 100 mod 10 = n div 100 mod 10"
    using mod_div_shift [of n 100] by simp
  then have a: "digit (n mod 1000 div 100) = digit (n div 100)"
    by (rule digit_cong)
  have "n mod 1000 div 10 mod 10 = n div 10 mod 10"
  proof -
    have "n mod 1000 = 10 * (n div 10 mod 100) + n mod 10"
      using mod_mult2_eq [of n 10 100] by simp
    then have "n mod 1000 div 10 = n div 10 mod 100" by simp
    then show ?thesis by (simp add: mod_mod_cancel)
  qed
  then have b: "digit (n mod 1000 div 10) = digit (n div 10)"
    by (rule digit_cong)
  have "n mod 1000 mod 10 = n mod 10"
    by (simp add: mod_mod_cancel)
  then have c: "digit (n mod 1000) = digit n"
    by (rule digit_cong)
  show ?thesis
    by (simp add: pad4_def pad3_def a b c)
qed

lemma pad3_less_iff:
  assumes "a < 1000" "b < 1000"
  shows "pad3 a < pad3 b \<longleftrightarrow> a < b"
proof -
  have d: "a div 100 < 10" "b div 100 < 10" "a mod 100 < 100" "b mod 100 < 100"
    using assms by simp_all
  show ?thesis
    unfolding pad3_split
    using digit_less_iff [OF d(1) d(2)] digit_eq_iff [OF d(1) d(2)]
      pad2_less_iff [OF d(3) d(4)] divmod_lex [of a b 100]
    by simp
qed

lemma pad3_eq_iff:
  assumes "a < 1000" "b < 1000"
  shows "pad3 a = pad3 b \<longleftrightarrow> a = b"
proof -
  have d: "a div 100 < 10" "b div 100 < 10" "a mod 100 < 100" "b mod 100 < 100"
    using assms by simp_all
  show ?thesis
    unfolding pad3_split
    using digit_eq_iff [OF d(1) d(2)] pad2_eq_iff [OF d(3) d(4)] divmod_eq [of a b 100]
    by simp
qed

lemma pad4_less_iff:
  assumes "a < 10000" "b < 10000"
  shows "pad4 a < pad4 b \<longleftrightarrow> a < b"
proof -
  have d: "a div 1000 < 10" "b div 1000 < 10" "a mod 1000 < 1000" "b mod 1000 < 1000"
    using assms by simp_all
  show ?thesis
    unfolding pad4_split
    using digit_less_iff [OF d(1) d(2)] digit_eq_iff [OF d(1) d(2)]
      pad3_less_iff [OF d(3) d(4)] divmod_lex [of a b 1000]
    by simp
qed

lemma pad4_eq_iff:
  assumes "a < 10000" "b < 10000"
  shows "pad4 a = pad4 b \<longleftrightarrow> a = b"
proof -
  have d: "a div 1000 < 10" "b div 1000 < 10" "a mod 1000 < 1000" "b mod 1000 < 1000"
    using assms by simp_all
  show ?thesis
    unfolding pad4_split
    using digit_eq_iff [OF d(1) d(2)] pad3_eq_iff [OF d(3) d(4)] divmod_eq [of a b 1000]
    by simp
qed

section \<open>The calendar is strictly increasing\<close>

lemma days_in_month_le: "days_in_month y m \<le> 31"
  by (simp add: days_in_month_def)

lemma next_day_greater: "c < next_day c"
  by (cases c) (auto simp: less_prod_def)

lemma next_day_fields:
  assumes "next_day (y, m, d) = (y', m', d')" "m \<le> 12" "d \<le> 31"
  shows "m' \<le> 12 \<and> d' \<le> 31"
  using assms days_in_month_le [of y m] by (auto split: if_splits)

lemma civil_fields: "civil_from_days n = (y, m, d) \<Longrightarrow> m \<le> 12 \<and> d \<le> 31"
proof (induction n arbitrary: y m d)
  case 0
  then show ?case by simp
next
  case (Suc n)
  obtain y0 m0 d0 where c: "civil_from_days n = (y0, m0, d0)"
    by (cases "civil_from_days n")
  from Suc.IH [OF c] Suc.prems c show ?case
    using next_day_fields [of y0 m0 d0 y m d] by simp
qed

lemma civil_less: "n < n' \<Longrightarrow> civil_from_days n < civil_from_days n'"
  by (rule lift_Suc_mono_less) (simp add: next_day_greater)

lemma civil_less_iff: "civil_from_days n < civil_from_days n' \<longleftrightarrow> n < n'"
  using civil_less [of n n'] civil_less [of n' n]
  by (metis less_asym' nat_neq_iff less_irrefl)

lemma civil_eq_iff: "civil_from_days n = civil_from_days n' \<longleftrightarrow> n = n'"
  using civil_less [of n n'] civil_less [of n' n]
  by (metis nat_neq_iff less_irrefl)

lemma civil_le: "n \<le> n' \<Longrightarrow> civil_from_days n \<le> civil_from_days n'"
  using civil_less [of n n'] by (cases "n = n'") (simp_all add: less_imp_le)

lemma in_range_s_mono: "s \<le> s' \<Longrightarrow> in_range_s s' \<Longrightarrow> in_range_s s"
proof -
  assume le: "s \<le> s'" and r: "in_range_s s'"
  have "civil_from_days (s div 86400) \<le> civil_from_days (s' div 86400)"
    by (rule civil_le) (simp add: le div_le_mono)
  then have "year_of_day (s div 86400) \<le> year_of_day (s' div 86400)"
    by (auto simp: year_of_day_def less_eq_prod_def)
  with r show ?thesis by (simp add: in_range_s_def)
qed

section \<open>Text order against time order\<close>

lemma date_text_less:
  assumes "y \<le> 9999" "m \<le> 12" "d \<le> 31" "y' \<le> 9999" "m' \<le> 12" "d' \<le> 31"
  shows "date_text (y, m, d) @ x < date_text (y', m', d') @ x'
           \<longleftrightarrow> (y, m, d) < (y', m', d') \<or> (y, m, d) = (y', m', d') \<and> x < x'"
proof -
  have b: "y < 10000" "y' < 10000" "m < 100" "m' < 100" "d < 100" "d' < 100"
    using assms by simp_all
  show ?thesis
    unfolding date_text_def
    by (simp add: append_less_same_length pad4_less_iff pad4_eq_iff pad2_less_iff pad2_eq_iff b
        less_prod_def) auto
qed

lemma clock_text_less:
  assumes "s < 86400" "s' < 86400"
  shows "clock_text s @ x < clock_text s' @ x' \<longleftrightarrow> s < s' \<or> s = s' \<and> x < x'"
proof -
  have b: "s div 3600 < 100" "s' div 3600 < 100" "s div 60 mod 60 < 100" "s' div 60 mod 60 < 100"
    "s mod 60 < 100" "s' mod 60 < 100"
    using assms by simp_all
  have m: "s mod 3600 div 60 = s div 60 mod 60" "s' mod 3600 div 60 = s' div 60 mod 60"
    "s mod 3600 mod 60 = s mod 60" "s' mod 3600 mod 60 = s' mod 60"
    by (simp_all add: mod_mod_cancel mod_mult2_eq [of _ 60 60, simplified])
  have l1: "s < s' \<longleftrightarrow> s div 3600 < s' div 3600
              \<or> s div 3600 = s' div 3600 \<and> s mod 3600 < s' mod 3600"
    by (rule divmod_lex)
  have l2: "s mod 3600 < s' mod 3600 \<longleftrightarrow> s div 60 mod 60 < s' div 60 mod 60
              \<or> s div 60 mod 60 = s' div 60 mod 60 \<and> s mod 60 < s' mod 60"
    using divmod_lex [of "s mod 3600" "s' mod 3600" 60] by (simp add: m)
  have e1: "s = s' \<longleftrightarrow> s div 3600 = s' div 3600 \<and> s mod 3600 = s' mod 3600"
    by (rule divmod_eq)
  have e2: "s mod 3600 = s' mod 3600 \<longleftrightarrow> s div 60 mod 60 = s' div 60 mod 60
              \<and> s mod 60 = s' mod 60"
    using divmod_eq [of "s mod 3600" "s' mod 3600" 60] by (simp add: m)
  have "clock_text s @ x < clock_text s' @ x' \<longleftrightarrow>
      s div 3600 < s' div 3600
      \<or> s div 3600 = s' div 3600
          \<and> (s div 60 mod 60 < s' div 60 mod 60
              \<or> s div 60 mod 60 = s' div 60 mod 60
                  \<and> (s mod 60 < s' mod 60 \<or> s mod 60 = s' mod 60 \<and> x < x'))"
    unfolding clock_text_def
    by (simp add: append_less_same_length pad2_less_iff pad2_eq_iff b)
  then show ?thesis
    using l1 l2 e1 e2 by blast
qed

lemma date_text_civil_less:
  assumes "year_of_day n \<le> 9999" "year_of_day n' \<le> 9999"
  shows "date_text (civil_from_days n) @ x < date_text (civil_from_days n') @ x'
           \<longleftrightarrow> n < n' \<or> n = n' \<and> x < x'"
proof -
  obtain y m d where c: "civil_from_days n = (y, m, d)" by (cases "civil_from_days n")
  obtain y' m' d' where c': "civil_from_days n' = (y', m', d')" by (cases "civil_from_days n'")
  have "y \<le> 9999" "y' \<le> 9999" using assms c c' by (simp_all add: year_of_day_def)
  with civil_fields [OF c] civil_fields [OF c']
  have "date_text (civil_from_days n) @ x < date_text (civil_from_days n') @ x'
           \<longleftrightarrow> civil_from_days n < civil_from_days n'
               \<or> civil_from_days n = civil_from_days n' \<and> x < x'"
    unfolding c c' by (intro date_text_less) simp_all
  then show ?thesis
    by (simp only: civil_less_iff civil_eq_iff)
qed

lemma sqlite_datetime_less_iff:
  assumes "in_range_s s" "in_range_s s'"
  shows "sqlite_datetime s < sqlite_datetime s' \<longleftrightarrow> s < s'"
proof -
  have r: "s mod 86400 < 86400" "s' mod 86400 < 86400" by simp_all
  have "clock_text (s mod 86400) < clock_text (s' mod 86400) \<longleftrightarrow> s mod 86400 < s' mod 86400"
    using clock_text_less [OF r, of "[]" "[]"] by simp
  then show ?thesis
    using assms divmod_lex [of s s' 86400]
    by (simp add: sqlite_datetime_def in_range_s_def date_text_civil_less)
qed

lemma toISOString_less_iff:
  assumes "in_range_ms t" "in_range_ms t'"
  shows "toISOString t < toISOString t' \<longleftrightarrow> t < t'"
proof -
  let ?r = "t mod 86400000" and ?r' = "t' mod 86400000"
  have r: "?r div 1000 < 86400" "?r' div 1000 < 86400"
    by (simp_all add: less_mult_imp_div_less)
  have m: "?r mod 1000 = t mod 1000" "?r' mod 1000 = t' mod 1000"
    by (simp_all add: mod_mod_cancel)
  have p: "t mod 1000 < 1000" "t' mod 1000 < 1000" by simp_all
  have "clock_text (?r div 1000) @ ''.'' @ pad3 (t mod 1000) @ ''Z''
          < clock_text (?r' div 1000) @ ''.'' @ pad3 (t' mod 1000) @ ''Z''
        \<longleftrightarrow> ?r div 1000 < ?r' div 1000 \<or> ?r div 1000 = ?r' div 1000 \<and> t mod 1000 < t' mod 1000"
    using clock_text_less [OF r] pad3_less_iff [OF p]
    by (simp add: append_less_same_length)
  also have "\<dots> \<longleftrightarrow> ?r < ?r'"
    using divmod_lex [of ?r ?r' 1000] by (simp add: m)
  finally have "clock_text (?r div 1000) @ ''.'' @ pad3 (t mod 1000) @ ''Z''
          < clock_text (?r' div 1000) @ ''.'' @ pad3 (t' mod 1000) @ ''Z'' \<longleftrightarrow> ?r < ?r'" .
  then show ?thesis
    using assms divmod_lex [of t t' 86400000]
    by (simp add: toISOString_def in_range_ms_def date_text_civil_less)
qed

lemma toISOString_le_sqlite_iff:
  assumes "in_range_ms t" "in_range_s s"
  shows "toISOString t \<le> sqlite_datetime s \<longleftrightarrow> t div 86400000 < s div 86400"
proof -
  have "toISOString t \<noteq> sqlite_datetime s"
    by (simp add: toISOString_def sqlite_datetime_def date_text_def clock_text_def pad2_def
        pad4_def split: prod.splits)
  then have "toISOString t \<le> sqlite_datetime s \<longleftrightarrow> toISOString t < sqlite_datetime s"
    by (simp add: le_less)
  also have "\<dots> \<longleftrightarrow> t div 86400000 < s div 86400"
    using assms
    by (simp add: toISOString_def sqlite_datetime_def in_range_ms_def in_range_s_def
        date_text_civil_less)
  finally show ?thesis .
qed

lemma linorder_iff_from_strict:
  fixes f :: "'a::linorder \<Rightarrow> 'b::linorder"
  assumes "\<And>a b. P a \<Longrightarrow> P b \<Longrightarrow> f a < f b \<longleftrightarrow> a < b" "P a" "P b"
  shows "f a \<le> f b \<longleftrightarrow> a \<le> b" "f a = f b \<longleftrightarrow> a = b"
proof -
  have 1: "f a < f b \<longleftrightarrow> a < b" and 2: "f b < f a \<longleftrightarrow> b < a"
    using assms by blast+
  show "f a \<le> f b \<longleftrightarrow> a \<le> b"
    using 2 by (simp only: not_less [symmetric])
  show "f a = f b \<longleftrightarrow> a = b"
    using 1 2 by (metis less_irrefl neqE)
qed

lemma iso_option_less_iff:
  assumes "\<forall>t. a = Some t \<longrightarrow> in_range_ms t" "\<forall>t. b = Some t \<longrightarrow> in_range_ms t"
  shows "map_option toISOString a < map_option toISOString b \<longleftrightarrow> a < b"
  using assms by (cases a; cases b) (simp_all add: toISOString_less_iff)

lemma iso_option_eq_iff:
  assumes "\<forall>t. a = Some t \<longrightarrow> in_range_ms t" "\<forall>t. b = Some t \<longrightarrow> in_range_ms t"
  shows "map_option toISOString a = map_option toISOString b \<longleftrightarrow> a = b"
proof (cases a; cases b)
  fix t t' assume ab: "a = Some t" "b = Some t'"
  then have r: "in_range_ms t" "in_range_ms t'" using assms by simp_all
  have "toISOString t = toISOString t' \<longleftrightarrow> t = t'"
    using linorder_iff_from_strict(2) [where f = toISOString and P = in_range_ms, OF toISOString_less_iff r]
    by simp
  then show ?thesis by (simp add: ab)
qed simp_all

lemma pending_order_less_iff:
  assumes "row_in_range a" "row_in_range b"
  shows "pending_order a < pending_order b
           \<longleftrightarrow> (scheduled_at a, created_at a) < (scheduled_at b, created_at b)"
proof -
  have s: "\<forall>t. scheduled_at a = Some t \<longrightarrow> in_range_ms t"
    "\<forall>t. scheduled_at b = Some t \<longrightarrow> in_range_ms t"
    using assms by (auto simp: row_in_range_def)
  have c: "in_range_s (created_at a)" "in_range_s (created_at b)"
    using assms by (auto simp: row_in_range_def)
  show ?thesis
    unfolding pending_order_def less_prod_def'
    by (simp add: iso_option_less_iff [OF s] iso_option_eq_iff [OF s]
        sqlite_datetime_less_iff [OF c])
qed

section \<open>Looking rows up by id\<close>

lemma find_map_same_key:
  assumes "\<And>r. key (f r) = key r"
  shows "find (\<lambda>r. key r = i) (map (\<lambda>r. if key r = i then f r else r) rows)
           = map_option f (find (\<lambda>r. key r = i) rows)"
  using assms by (induction rows) auto

lemma find_map_guarded:
  assumes "\<And>r. key (f r) = key r"
  shows "find (\<lambda>r. key r = i) (map (\<lambda>r. if key r = i \<and> Q r then f r else r) rows)
           = map_option (\<lambda>r. if Q r then f r else r) (find (\<lambda>r. key r = i) rows)"
  using assms by (induction rows) auto

lemma find_map_other_key:
  assumes "\<And>r. key (f r) = key r" and "k \<noteq> i"
  shows "find (\<lambda>r. key r = k) (map (\<lambda>r. if key r = i \<and> Q r then f r else r) rows)
           = find (\<lambda>r. key r = k) rows"
  using assms by (induction rows) auto

lemma find_map_other:
  assumes "\<And>r. key (f r) = key r" and "k \<noteq> i"
  shows "find (\<lambda>r. key r = i) (map (\<lambda>r. if key r = k then f r else r) rows)
           = find (\<lambda>r. key r = i) rows"
  using assms by (induction rows) auto

lemma find_distinct_key:
  "distinct (map key rows) \<Longrightarrow> r \<in> set rows \<Longrightarrow> find (\<lambda>x. key x = key r) rows = Some r"
  by (induction rows) (auto simp: image_iff)

lemma find_Some_mem: "find P rows = Some r \<Longrightarrow> r \<in> set rows \<and> P r"
  by (induction rows) (auto split: if_splits)

lemma find_append_fresh:
  "\<forall>r\<in>set rows. \<not> P r \<Longrightarrow> find P (rows @ [x]) = (if P x then Some x else None)"
  by (induction rows) auto

lemma map_no_hit: "\<forall>r\<in>set rows. \<not> hit r \<Longrightarrow> map (\<lambda>r. if hit r then f r else r) rows = rows"
  by (induction rows) auto

lemma fold_max_ge: "fold max xs (a::nat) \<ge> a"
proof (induction xs arbitrary: a)
  case Nil then show ?case by simp
next
  case (Cons y ys)
  have "a \<le> max y a" by simp
  also have "\<dots> \<le> fold max ys (max y a)" by (rule Cons.IH)
  finally show ?case by simp
qed

lemma fold_max_mem: "x \<in> set xs \<Longrightarrow> x \<le> fold max xs (a::nat)"
proof (induction xs arbitrary: a)
  case Nil then show ?case by simp
next
  case (Cons y ys)
  show ?case
  proof (cases "x = y")
    case True
    have "max y a \<le> fold max ys (max y a)" by (rule fold_max_ge)
    then show ?thesis using True by simp
  next
    case False
    with Cons show ?thesis by simp
  qed
qed

lemma getJob_select: "getJob zone d t i = map_option (rowToJob zone t) (select_by_id d i)"
  by (simp add: getJob_def getJobById_def)

lemma select_addPost:
  "select_by_id (fst (addPost d now p a c s f)) (snd (addPost d now p a c s f))
     = Some \<lparr> post_id = snd (addPost d now p a c s f), post_platform = p, post_action = a,
               post_status = Pending, scheduled_at = s, content_json = c,
               file_path = or_null f, result_json = None, error_message = None,
               retry_count = 0, created_at = now div 1000, updated_at = now div 1000 \<rparr>"
proof -
  have "\<forall>r\<in>set (posts d). post_id r \<noteq> Suc (fold max (map post_id (posts d)) (seq d))"
  proof
    fix r assume "r \<in> set (posts d)"
    then have "post_id r \<le> fold max (map post_id (posts d)) (seq d)"
      by (intro fold_max_mem) simp
    then show "post_id r \<noteq> Suc (fold max (map post_id (posts d)) (seq d))" by simp
  qed
  then show ?thesis
    by (simp add: addPost_def select_by_id_def Let_def find_append_fresh)
qed

lemma select_markFailed:
  "select_by_id (markFailed d now i msg) i
     = map_option (\<lambda>r. r\<lparr>post_status := Failed, error_message := Some msg,
                          retry_count := retry_count r + 1, updated_at := now div 1000\<rparr>)
         (select_by_id d i)"
  unfolding select_by_id_def markFailed_def
  by (simp add: find_map_same_key [where key = post_id])

lemma select_markFailed_other:
  "k \<noteq> i \<Longrightarrow> select_by_id (markFailed d t k m) i = select_by_id d i"
  unfolding select_by_id_def markFailed_def
  by (simp add: find_map_other [where key = post_id])

lemma select_markComplete_other:
  "k \<noteq> i \<Longrightarrow> select_by_id (markComplete d t k m) i = select_by_id d i"
  unfolding select_by_id_def markComplete_def
  by (simp add: find_map_other [where key = post_id])

lemma select_retry:
  "select_by_id (fst (retry d now i)) i
     = map_option (\<lambda>r. if post_status r = Failed
                        then r\<lparr>post_status := Pending, error_message := None,
                               updated_at := now div 1000\<rparr>
                        else r) (select_by_id d i)"
  unfolding select_by_id_def retry_def retryJob_def Let_def
  by (simp add: find_map_guarded [where key = post_id])

lemma select_retry_other:
  "k \<noteq> i \<Longrightarrow> select_by_id (fst (retry d now i)) k = select_by_id d k"
  unfolding select_by_id_def retry_def retryJob_def Let_def
  by (simp add: find_map_other_key [where key = post_id])

lemma retry_returns:
  assumes "distinct (map post_id (posts d))"
  shows "snd (retry d now i) = (\<exists>r. select_by_id d i = Some r \<and> post_status r = Failed)"
proof
  assume "snd (retry d now i)"
  then obtain r where r: "r \<in> set (posts d)" "post_id r = i" "post_status r = Failed"
    by (auto simp: retry_def retryJob_def changes_def Let_def filter_empty_conv)
  from find_distinct_key [OF assms r(1)] r show "\<exists>r. select_by_id d i = Some r \<and> post_status r = Failed"
    by (auto simp: select_by_id_def)
next
  assume "\<exists>r. select_by_id d i = Some r \<and> post_status r = Failed"
  then obtain r where "select_by_id d i = Some r" "post_status r = Failed" by blast
  then have "r \<in> set (posts d) \<and> post_id r = i" "post_status r = Failed"
    by (auto simp: select_by_id_def dest: find_Some_mem)
  then show "snd (retry d now i)"
    by (auto simp: retry_def retryJob_def changes_def Let_def filter_empty_conv)
qed

lemma retry_false_unchanged:
  "\<not> snd (retry d now i) \<Longrightarrow> fst (retry d now i) = d"
  by (auto simp: retry_def retryJob_def changes_def Let_def filter_empty_conv map_no_hit)

section \<open>The ready set\<close>

lemma ready_row_iff:
  assumes "in_range_s (now div 1000)" "row_in_range r"
  shows "ready_row now r \<longleftrightarrow>
           post_status r = Pending
           \<and> (case scheduled_at r of None \<Rightarrow> True
                | Some t \<Rightarrow> t div 86400000 < now div 86400000)
           \<and> retry_count r < 3"
proof (cases "scheduled_at r")
  case None
  then show ?thesis by (simp add: ready_row_def)
next
  case (Some t)
  then have "in_range_ms t" using assms(2) by (simp add: row_in_range_def)
  moreover have "now div 1000 div 86400 = now div 86400000"
    using div_mult2_eq [of now 1000 86400] by simp
  ultimately show ?thesis
    using toISOString_le_sqlite_iff [OF _ assms(1), of t] Some
    by (simp add: ready_row_def datetime_now_def)
qed

lemma ready_row_not_future:
  assumes "in_range_s (now div 1000)" "row_in_range r" "ready_row now r" "scheduled_at r = Some t"
  shows "t < now"
proof -
  from assms have "t div 86400000 < now div 86400000"
    by (simp add: ready_row_iff)
  then show ?thesis by (rule div_less_imp_less)
qed

text \<open>
  Claim C1: the ready set holds exactly the jobs that are pending, whose
  \<open>scheduled_at\<close> is absent or not after the clock, and whose retry count is below the
  configured maximum. The code does not do this. Its \<open>WHERE\<close> clause compares the stored
  ISO text with \<open>datetime('now')\<close> bytewise, and a \<open>T\<close> sorts after a blank, so a job is
  selected only when it was scheduled on an earlier UTC day (\<open>ready_row_iff\<close>); and the
  retry bound is the literal 3, whatever \<open>MAX_RETRIES\<close> is. Evaluated on the sample
  store: job 4 is pending, was due at 00:00:01 and has never failed, yet at 01:00:00 of
  the same day only job 1 is returned, and job 4 appears at 00:00:00 of the next day; a
  job enqueued through \<open>addJob\<close> without a schedule time is not ready an hour later.
  And with \<open>MAX_RETRIES\<close> set to 5, a pending, unscheduled job that has failed three
  times is not in the ready set, and a run of the dispatch loop leaves it alone.
\<close>

theorem ready_set_misses_due_jobs:
  "example_due \<in> set (posts example_db)
   \<and> post_status example_due = Pending
   \<and> scheduled_at example_due = Some 1000
   \<and> (1000::nat) \<le> 3600000
   \<and> retry_count example_due < 3
   \<and> map job_id (getPendingJobs zone example_db 3600000) = [1]
   \<and> map job_id (getPendingJobs zone example_db 86400000) = [1, 4]
   \<and> posts (fst (addJob empty_db 1000 example_request))
       = [\<lparr> post_id = 1, post_platform = ''youtube'', post_action = ''upload'',
            post_status = Pending, scheduled_at = Some 1000, content_json = ''{}'',
            file_path = None, result_json = None, error_message = None, retry_count = 0,
            created_at = 1, updated_at = 1 \<rparr>]
   \<and> getReadyJobs zone (fst (addJob empty_db 1000 example_request)) 3600000 = []
   \<and> post_status example_retried = Pending
   \<and> scheduled_at example_retried = None
   \<and> int (retry_count example_retried) < 5
   \<and> getReadyJobs zone retried_db 3600000 = []
   \<and> processJobs json spawn 5 zone retried_db 3600000 = (retried_db, 3600000)"
  by (simp add: processJobs_def getReadyJobs_def getPendingJobs_def select_pending_def
      ready_row_def pending_order_def rowToJob_def example_defs render_defs addJob_def
      addPost_def or_null_def truthy_def Let_def)

lemma select_pending_sorted: "sorted (map pending_order (select_pending d now))"
  by (simp add: select_pending_def)

lemma select_pending_subset: "set (select_pending d now) \<subseteq> set (posts d)"
  by (auto simp: select_pending_def)

text \<open>
  Claim C7: the ready set is ordered by \<open>scheduled_at\<close> ascending with \<open>NULL\<close> first,
  then by creation time ascending. For two returned jobs, if the stored schedule time
  of the one at position \<open>i\<close> is earlier than that of the one at position \<open>j\<close> (an absent
  time counting as earliest), or the schedule times are equal and the first was created
  earlier, then \<open>i < j\<close>.
\<close>

theorem ready_set_order:
  assumes "\<forall>r\<in>set (posts d). row_in_range r"
      and "i < length (getPendingJobs zone d now)" "j < length (getPendingJobs zone d now)"
      and "scheduled_at (select_pending d now ! i) < scheduled_at (select_pending d now ! j)
           \<or> scheduled_at (select_pending d now ! i) = scheduled_at (select_pending d now ! j)
             \<and> created_at (select_pending d now ! i) < created_at (select_pending d now ! j)"
  shows "i < j
       \<and> getPendingJobs zone d now ! i = rowToJob zone now (select_pending d now ! i)
       \<and> getPendingJobs zone d now ! j = rowToJob zone now (select_pending d now ! j)"
proof -
  let ?out = "select_pending d now"
  have len: "i < length ?out" "j < length ?out"
    using assms(2,3) by (simp_all add: getPendingJobs_def)
  then have mem: "?out ! i \<in> set (posts d)" "?out ! j \<in> set (posts d)"
    using select_pending_subset [of d now] by (auto dest: nth_mem)
  then have r: "row_in_range (?out ! i)" "row_in_range (?out ! j)"
    using assms(1) by simp_all
  have "(scheduled_at (?out ! i), created_at (?out ! i))
          < (scheduled_at (?out ! j), created_at (?out ! j))"
    using assms(4) by (simp add: less_prod_def')
  then have lt: "pending_order (?out ! i) < pending_order (?out ! j)"
    by (simp only: pending_order_less_iff [OF r])
  have "i < j"
  proof (rule ccontr)
    assume "\<not> i < j"
    then have "j \<le> i" by simp
    then have "map pending_order ?out ! j \<le> map pending_order ?out ! i"
      using len by (intro sorted_nth_mono [OF select_pending_sorted]) simp_all
    then show False using lt len by simp
  qed
  then show ?thesis using len by (simp add: getPendingJobs_def)
qed

theorem ready_set_order_witness:
  "list_all row_in_range (posts example_db)
   \<and> length (getPendingJobs example_zone example_db 86400000) = 2
   \<and> scheduled_at (select_pending example_db 86400000 ! 0) = None
   \<and> scheduled_at (select_pending example_db 86400000 ! 1) = Some 1000
   \<and> (0::nat) < 1
   \<and> getPendingJobs example_zone example_db 86400000 ! 0 = rowToJob example_zone 86400000 example_unscheduled
   \<and> getPendingJobs example_zone example_db 86400000 ! 1 = rowToJob example_zone 86400000 example_due"
proof -
  have r: "\<forall>r\<in>set (posts example_db). row_in_range r"
    by (simp add: row_in_range_def in_range_s_def in_range_ms_def year_of_day_def example_defs)
  have s: "select_pending example_db 86400000 = [example_unscheduled, example_due]"
    by (simp add: select_pending_def ready_row_def pending_order_def example_defs render_defs)
  have l: "0 < length (getPendingJobs example_zone example_db 86400000)"
    "1 < length (getPendingJobs example_zone example_db 86400000)"
    by (simp_all add: getPendingJobs_def s)
  have o: "scheduled_at (select_pending example_db 86400000 ! 0)
             < scheduled_at (select_pending example_db 86400000 ! 1)
           \<or> scheduled_at (select_pending example_db 86400000 ! 0)
               = scheduled_at (select_pending example_db 86400000 ! 1)
             \<and> created_at (select_pending example_db 86400000 ! 0)
                 < created_at (select_pending example_db 86400000 ! 1)"
    unfolding s by (simp add: example_defs)
  have a: "list_all row_in_range (posts example_db)"
    using r by (simp add: list_all_iff)
  have b: "scheduled_at (select_pending example_db 86400000 ! 0) = None"
    "scheduled_at (select_pending example_db 86400000 ! 1) = Some 1000"
    "length (getPendingJobs example_zone example_db 86400000) = 2"
    unfolding getPendingJobs_def s by (simp_all add: example_defs)
  have c: "select_pending example_db 86400000 ! 0 = example_unscheduled"
    "select_pending example_db 86400000 ! 1 = example_due"
    by (simp_all add: s)
  from ready_set_order [OF r l o] show ?thesis
    using a b c by simp
qed

section \<open>Failing and retrying a job\<close>

lemma getJob_failJob:
  assumes "getJob zone d t0 i = Some job"
  shows "\<exists>job' row'. getJob zone (failJob d now i msg) t1 i = Some job'
           \<and> select_by_id (failJob d now i msg) i = Some row'
           \<and> job_status job' = Failed \<and> errorMessage job' = Some msg
           \<and> retryCount job' = retryCount job + 1
           \<and> updated_at row' = now div 1000
           \<and> updatedAt job' = zone (now div 1000)"
  using assms
  by (auto simp: getJob_select failJob_def select_markFailed rowToJob_def)

lemma getJob_fail_fold:
  assumes "getJob zone d t0 i = Some job"
  shows "\<exists>job'. getJob zone (fold (\<lambda>(t, m) d'. failJob d' t i m) fails d) t1 i = Some job'
           \<and> retryCount job' = retryCount job + length fails
           \<and> (fails \<noteq> [] \<longrightarrow> job_status job' = Failed)"
  using assms
proof (induction fails arbitrary: d job t0 rule: rev_induct)
  case Nil
  then show ?case by (auto simp: getJob_select rowToJob_def)
next
  case (snoc x fails)
  obtain t m where x: "x = (t, m)" by (cases x)
  from snoc obtain job' where
    j: "getJob zone (fold (\<lambda>(t, m) d'. failJob d' t i m) fails d) t1 i = Some job'"
    and rc: "retryCount job' = retryCount job + length fails" by blast
  from getJob_failJob [OF j, of t m t1] rc show ?case
    by (auto simp add: x)
qed

text \<open>
  Claim C5: for an existing job, \<open>fail(jobId, msg)\<close> leaves the job failed whatever its
  status was, with error message \<open>msg\<close> and the retry count one higher; the stored
  \<open>updated_at\<close> is the clock, to the second, and the job read back reports that second as
  the process's time zone reads it. After any sequence of \<open>N\<close> failures the retry count has
  grown by \<open>N\<close>, so a job enqueued with retry count 0 ends with retry count \<open>N\<close>.
\<close>

theorem fail_increments_retry_count:
  assumes "getJob zone d t0 i = Some job"
  shows "(\<exists>job' row'. getJob zone (failJob d now i msg) t1 i = Some job'
            \<and> select_by_id (failJob d now i msg) i = Some row'
            \<and> job_status job' = Failed \<and> errorMessage job' = Some msg
            \<and> retryCount job' = retryCount job + 1
            \<and> updated_at row' = now div 1000
            \<and> updatedAt job' = zone (now div 1000))
       \<and> (\<exists>job'. getJob zone (fold (\<lambda>(t, m) d'. failJob d' t i m) fails d) t1 i = Some job'
            \<and> retryCount job' = retryCount job + length fails
            \<and> (fails \<noteq> [] \<longrightarrow> job_status job' = Failed))"
  using getJob_failJob [OF assms] getJob_fail_fold [OF assms] by blast

theorem fail_increments_retry_count_witness:
  "map_option retryCount (getJob example_zone (fst (addJob empty_db 1000 example_request)) 0 1) = Some 0
   \<and> map_option job_status (getJob example_zone (fst (addJob empty_db 1000 example_request)) 0 1) = Some Pending
   \<and> (\<exists>job' row'.
          getJob example_zone (failJob (fst (addJob empty_db 1000 example_request)) 7000 1 ''boom'')
              0 1 = Some job'
          \<and> select_by_id (failJob (fst (addJob empty_db 1000 example_request)) 7000 1 ''boom'') 1
              = Some row'
          \<and> job_status job' = Failed \<and> errorMessage job' = Some ''boom''
          \<and> retryCount job' = 1 \<and> updated_at row' = 7 \<and> updatedAt job' = 18007000)
   \<and> (\<exists>job'. getJob example_zone (fold (\<lambda>(t, m) d'. failJob d' t 1 m)
                         [(7000, ''a''), (8000, ''b''), (9000, ''c'')]
                         (fst (addJob empty_db 1000 example_request))) 0 1 = Some job'
          \<and> retryCount job' = 3 \<and> job_status job' = Failed)"
proof -
  let ?d = "fst (addJob empty_db 1000 example_request)"
  let ?job = "\<lparr> job_id = 1, job_platform = ''youtube'', job_action = ''upload'',
                 job_status = Pending, scheduledAt = 1000, contentJson = ''{}'',
                 filePath = None, resultJson = None, errorMessage = None, retryCount = 0,
                 createdAt = 18001000, updatedAt = 18001000 \<rparr>"
  have h: "getJob example_zone ?d 0 1 = Some ?job"
    by (simp add: getJob_def getJobById_def select_by_id_def rowToJob_def addJob_def
        addPost_def or_null_def truthy_def Let_def example_defs)
  have r: "retryCount ?job = 0" "job_status ?job = Pending"
    by simp_all
  note inst = fail_increments_retry_count [OF h,
      where now = 7000 and msg = "''boom''" and ?t1.0 = 0
        and fails = "[(7000, ''a''), (8000, ''b''), (9000, ''c'')]"]
  from inst obtain job' row' where
    a: "getJob example_zone (failJob ?d 7000 1 ''boom'') 0 1 = Some job'"
       "select_by_id (failJob ?d 7000 1 ''boom'') 1 = Some row'"
       "job_status job' = Failed" "errorMessage job' = Some ''boom''"
       "retryCount job' = retryCount ?job + 1"
       "updated_at row' = 7000 div 1000"
       "updatedAt job' = example_zone (7000 div 1000)"
    by blast
  have a1: "retryCount job' = 1" "updated_at row' = 7" "updatedAt job' = 18007000"
    using a(5,6,7) by (simp_all add: example_zone_def)
  from inst obtain job3 where
    b: "getJob example_zone (fold (\<lambda>(t, m) d'. failJob d' t 1 m)
          [(7000, ''a''), (8000, ''b''), (9000, ''c'')] ?d) 0 1 = Some job3"
       "retryCount job3 = retryCount ?job + length [(7000::nat, ''a''), (8000, ''b''), (9000, ''c'')]"
       "[(7000::nat, ''a''), (8000, ''b''), (9000, ''c'')] \<noteq> [] \<longrightarrow> job_status job3 = Failed"
    by blast
  have b1: "retryCount job3 = 3" "job_status job3 = Failed"
    using b(2,3) by simp_all
  have h1: "map_option retryCount (getJob example_zone ?d 0 1) = Some 0"
    "map_option job_status (getJob example_zone ?d 0 1) = Some Pending"
    unfolding h by simp_all
  show ?thesis
    using h1 a(1,2,3,4) a1 b(1) b1 by blast
qed

text \<open>
  Claim C6: with ids unique (the primary key), \<open>retry(jobId)\<close> returns true exactly when
  the job exists with status failed; it then makes the job pending, clears the error
  message and stores the clock, to the second, as \<open>updated_at\<close> (read back as the process's
  time zone reads it), and every other field, the retry count among them, is as before.
  Otherwise it returns false and the store is unchanged. No other job is touched.
\<close>

theorem retry_only_failed:
  assumes "distinct (map post_id (posts d))"
  shows "snd (retry d now i) = (\<exists>job. getJob zone d t0 i = Some job \<and> job_status job = Failed)
       \<and> (snd (retry d now i) \<longrightarrow>
            (\<exists>job. getJob zone d t0 i = Some job
               \<and> getJob zone (fst (retry d now i)) t0 i
                   = Some (job\<lparr>job_status := Pending, errorMessage := None,
                              updatedAt := zone (now div 1000)\<rparr>)
               \<and> map_option updated_at (select_by_id (fst (retry d now i)) i)
                   = Some (now div 1000)))
       \<and> (\<not> snd (retry d now i) \<longrightarrow> fst (retry d now i) = d)
       \<and> (\<forall>k. k \<noteq> i \<longrightarrow> getJob zone (fst (retry d now i)) t0 k = getJob zone d t0 k)"
proof (intro conjI allI impI)
  show "snd (retry d now i) = (\<exists>job. getJob zone d t0 i = Some job \<and> job_status job = Failed)"
    by (auto simp: retry_returns [OF assms] getJob_select rowToJob_def)
  show "\<exists>job. getJob zone d t0 i = Some job
               \<and> getJob zone (fst (retry d now i)) t0 i
                   = Some (job\<lparr>job_status := Pending, errorMessage := None,
                              updatedAt := zone (now div 1000)\<rparr>)
               \<and> map_option updated_at (select_by_id (fst (retry d now i)) i)
                   = Some (now div 1000)" if "snd (retry d now i)"
  proof -
    from that obtain r where r: "select_by_id d i = Some r" "post_status r = Failed"
      by (auto simp: retry_returns [OF assms])
    show ?thesis
      by (simp add: getJob_select select_retry r rowToJob_def)
  qed
  show "fst (retry d now i) = d" if "\<not> snd (retry d now i)"
    using that by (rule retry_false_unchanged)
  show "getJob zone (fst (retry d now i)) t0 k = getJob zone d t0 k" if "k \<noteq> i" for k
    using that by (simp add: getJob_select select_retry_other)
qed

theorem retry_only_failed_witness:
  "distinct (map post_id (posts example_db))
   \<and> snd (retry example_db 9000 2)
   \<and> getJob example_zone (fst (retry example_db 9000 2)) 0 2
       = Some ((rowToJob example_zone 0 example_failed)\<lparr>job_status := Pending,
                 errorMessage := None, updatedAt := 18009000\<rparr>)
   \<and> map_option updated_at (select_by_id (fst (retry example_db 9000 2)) 2) = Some 9
   \<and> map_option retryCount (getJob example_zone (fst (retry example_db 9000 2)) 0 2) = Some 1
   \<and> \<not> snd (retry example_db 9000 1)
   \<and> fst (retry example_db 9000 1) = example_db"
proof -
  have h: "distinct (map post_id (posts example_db))"
    by (simp add: example_defs)
  have g: "getJob example_zone example_db 0 2 = Some (rowToJob example_zone 0 example_failed)"
    "getJob example_zone example_db 0 1 = Some (rowToJob example_zone 0 example_unscheduled)"
    by (simp_all add: getJob_def getJobById_def select_by_id_def example_defs)
  have s: "job_status (rowToJob example_zone 0 example_failed) = Failed"
    "job_status (rowToJob example_zone 0 example_unscheduled) = Pending"
    "retryCount (rowToJob example_zone 0 example_failed) = 1"
    by (simp_all add: rowToJob_def example_defs)
  note two = retry_only_failed [OF h, where now = 9000 and i = 2 and zone = example_zone
      and ?t0.0 = 0]
  note one = retry_only_failed [OF h, where now = 9000 and i = 1 and zone = example_zone
      and ?t0.0 = 0]
  have yes: "snd (retry example_db 9000 2)"
    using two g(1) s(1) by blast
  with two g(1) have rb:
    "getJob example_zone (fst (retry example_db 9000 2)) 0 2
       = Some ((rowToJob example_zone 0 example_failed)\<lparr>job_status := Pending,
                 errorMessage := None, updatedAt := example_zone (9000 div 1000)\<rparr>)"
    "map_option updated_at (select_by_id (fst (retry example_db 9000 2)) 2)
       = Some (9000 div 1000)"
    by auto
  have rb1: "getJob example_zone (fst (retry example_db 9000 2)) 0 2
       = Some ((rowToJob example_zone 0 example_failed)\<lparr>job_status := Pending,
                 errorMessage := None, updatedAt := 18009000\<rparr>)"
    "map_option updated_at (select_by_id (fst (retry example_db 9000 2)) 2) = Some 9"
    using rb by (simp_all add: example_zone_def)
  have count: "map_option retryCount (getJob example_zone (fst (retry example_db 9000 2)) 0 2)
                 = Some 1"
    unfolding rb1(1) using s(3) by simp
  have no: "\<not> snd (retry example_db 9000 1)"
    using one g(2) s(2) by auto
  with one have same: "fst (retry example_db 9000 1) = example_db"
    by blast
  show ?thesis
    using h yes rb1 count no same by blast
qed

section \<open>The retention sweep\<close>

lemma old_terminal_iff:
  assumes "in_range_s (now div 1000)" "in_range_s (created_at r)"
  shows "old_terminal now days r \<longleftrightarrow>
           (post_status r = Completed \<or> post_status r = Failed)
           \<and> created_at r + days * 86400 < now div 1000"
proof (cases "now div 1000 < days * 86400")
  case True
  then show ?thesis by (simp add: old_terminal_def datetime_now_minus_days_def)
next
  case False
  have "in_range_s (now div 1000 - days * 86400)"
    by (rule in_range_s_mono [OF _ assms(1)]) simp
  then have "sqlite_datetime (created_at r) < sqlite_datetime (now div 1000 - days * 86400)
               \<longleftrightarrow> created_at r < now div 1000 - days * 86400"
    using assms(2) by (simp add: sqlite_datetime_less_iff)
  then show ?thesis
    using False by (auto simp add: old_terminal_def datetime_now_minus_days_def)
qed

text \<open>
  Claim C9: \<open>purgeOlderThan(days)\<close> deletes exactly the jobs that are completed or failed
  and were created before the cutoff, the clock minus \<open>days\<close> days, and returns how many
  it deleted. Pending jobs all stay, whatever their age, and so do terminal jobs that are
  not older than the cutoff; the credentials are untouched.
\<close>

theorem purge_only_old_terminal:
  assumes "in_range_s (now div 1000)"
      and "\<forall>r\<in>set (posts d). in_range_s (created_at r)"
  shows "posts (fst (cleanup d now days))
           = filter (\<lambda>r. \<not> ((post_status r = Completed \<or> post_status r = Failed)
                             \<and> created_at r + days * 86400 < now div 1000)) (posts d)
       \<and> snd (cleanup d now days)
           = length (filter (\<lambda>r. (post_status r = Completed \<or> post_status r = Failed)
                             \<and> created_at r + days * 86400 < now div 1000) (posts d))
       \<and> snd (cleanup d now days) + length (posts (fst (cleanup d now days))) = length (posts d)
       \<and> filter (\<lambda>r. post_status r = Pending) (posts (fst (cleanup d now days)))
           = filter (\<lambda>r. post_status r = Pending) (posts d)
       \<and> tokens (fst (cleanup d now days)) = tokens d"
proof -
  have eq: "filter (old_terminal now days) (posts d)
              = filter (\<lambda>r. (post_status r = Completed \<or> post_status r = Failed)
                             \<and> created_at r + days * 86400 < now div 1000) (posts d)"
    using assms by (intro filter_cong) (simp_all add: old_terminal_iff)
  have neq: "filter (\<lambda>r. \<not> old_terminal now days r) (posts d)
              = filter (\<lambda>r. \<not> ((post_status r = Completed \<or> post_status r = Failed)
                             \<and> created_at r + days * 86400 < now div 1000)) (posts d)"
    using assms by (intro filter_cong) (simp_all add: old_terminal_iff)
  have pend: "filter (\<lambda>r. post_status r = Pending) (filter (\<lambda>r. \<not> old_terminal now days r) (posts d))
              = filter (\<lambda>r. post_status r = Pending) (posts d)"
    by (simp add: old_terminal_def) (rule filter_cong, auto)
  have len: "length (filter (old_terminal now days) (posts d))
               + length (filter (\<lambda>r. \<not> old_terminal now days r) (posts d)) = length (posts d)"
    by (rule sum_length_filter_compl)
  show ?thesis
    using eq neq pend len
    by (simp add: cleanup_def deleteOldPosts_def changes_def)
qed

theorem purge_only_old_terminal_witness:
  "in_range_s (864000000 div 1000)
   \<and> list_all (\<lambda>r. in_range_s (created_at r)) (posts example_db)
   \<and> posts (fst (cleanup example_db 864000000 7)) = [example_unscheduled, example_due]
   \<and> snd (cleanup example_db 864000000 7) = 2
   \<and> posts (fst (cleanup example_db 25000 0))
       = [example_unscheduled, example_completed, example_due]
   \<and> snd (cleanup example_db 25000 0) = 1"
proof -
  have n: "in_range_s (864000000 div 1000)" "in_range_s (25000 div 1000)"
    by (simp_all add: in_range_s_def year_of_day_def civil_numeral days_in_month_def)
  have r: "\<forall>r\<in>set (posts example_db). in_range_s (created_at r)"
    by (simp add: in_range_s_def year_of_day_def example_defs)
  have l: "list_all (\<lambda>r. in_range_s (created_at r)) (posts example_db)"
    using r by (simp add: list_all_iff)
  from purge_only_old_terminal [OF n(1) r, of 7] purge_only_old_terminal [OF n(2) r, of 0]
  show ?thesis using n(1) l by (simp add: example_defs)
qed

section \<open>The dispatch loop\<close>

lemma processJob_other:
  assumes "job_id job \<noteq> i"
  shows "select_by_id (fst (processJob json spawn mr job st)) i = select_by_id (fst st) i"
  using assms
  by (cases st)
    (auto simp: processJob_def failJob_def completeJob_def select_markFailed_other
      select_markComplete_other split: prod.splits outcome.splits parsed.splits)

lemma fold_processJob_other:
  assumes "\<forall>job\<in>set jobs. job_id job \<noteq> i"
  shows "select_by_id (fst (fold (processJob json spawn mr) jobs st)) i = select_by_id (fst st) i"
  using assms by (induction jobs arbitrary: st) (simp_all add: processJob_other)

lemma processJob_failure:
  assumes "int (retryCount job) < mr"
      and "fst (executeSkill json spawn job (snd st)) = Returned (JsonResult result)"
      and "\<not> success result"
  shows "select_by_id (fst (processJob json spawn mr job st)) (job_id job)
           = map_option (\<lambda>r. r\<lparr>post_status := Failed,
                 error_message := Some (if needsAuth result
                                        then ''Authentication required: '' @ template (error result)
                                        else or_else (error result) ''Unknown error''),
                 retry_count := retry_count r + 1,
                 updated_at := snd (executeSkill json spawn job (snd st)) div 1000\<rparr>)
               (select_by_id (fst st) (job_id job))"
  using assms
  by (cases st; cases "executeSkill json spawn job (snd st)")
    (auto simp: processJob_def failJob_def select_markFailed)

lemma distinct_map_insort_key:
  "distinct (map f (insort_key k x xs)) \<longleftrightarrow> f x \<notin> f ` set xs \<and> distinct (map f xs)"
  by (induction xs) (auto simp: set_insort_key)

lemma distinct_map_sort_key:
  "distinct (map f (sort_key k xs)) \<longleftrightarrow> distinct (map f xs)"
  by (induction xs) (simp_all add: distinct_map_insort_key)

lemma distinct_ready_ids:
  assumes "distinct (map post_id (posts d))"
  shows "distinct (map job_id (getReadyJobs zone d now))"
proof -
  have "map job_id (getReadyJobs zone d now) = map post_id (select_pending d now)"
    by (simp add: getReadyJobs_def getPendingJobs_def rowToJob_def comp_def)
  moreover have "distinct (map post_id (select_pending d now))"
    using assms by (simp add: select_pending_def distinct_map_sort_key distinct_map_filter)
  ultimately show ?thesis by simp
qed

lemma ready_job_row:
  assumes "distinct (map post_id (posts d))" "job \<in> set (getReadyJobs zone d now)"
  shows "\<exists>r. select_by_id d (job_id job) = Some r \<and> retry_count r = retryCount job"
proof -
  from assms(2) obtain r where r: "r \<in> set (posts d)" "job = rowToJob zone now r"
    by (auto simp: getReadyJobs_def getPendingJobs_def select_pending_def)
  from find_distinct_key [OF assms(1) r(1)] r(2) show ?thesis
    by (simp add: select_by_id_def rowToJob_def)
qed

text \<open>
  What the loop does with a failure that \<open>executeSkill\<close> returns: the job ends failed, its
  retry count one higher, with the authentication message when the result is flagged
  \<open>needsAuth\<close> and with the result's error otherwise.
\<close>

lemma returned_failure_recorded:
  assumes "distinct (map post_id (posts d))"
      and "job \<in> set (getReadyJobs zone d now)"
      and "int (retryCount job) < MAX_RETRIES"
      and "\<forall>t. fst (executeSkill json spawn job t) = Returned (JsonResult result)"
      and "\<not> success result"
  shows "\<exists>row. select_by_id (fst (processJobs json spawn MAX_RETRIES zone d now)) (job_id job)
                 = Some row
           \<and> post_status row = Failed
           \<and> retry_count row = retryCount job + 1
           \<and> error_message row
               = Some (if needsAuth result
                       then ''Authentication required: '' @ template (error result)
                       else or_else (error result) ''Unknown error'')"
proof -
  let ?jobs = "getReadyJobs zone d now"
  let ?step = "processJob json spawn MAX_RETRIES"
  from assms(2) obtain pre post where split: "?jobs = pre @ job # post"
    by (auto simp: in_set_conv_decomp)
  have "distinct (map job_id ?jobs)" by (rule distinct_ready_ids [OF assms(1)])
  then have other: "\<forall>j\<in>set pre. job_id j \<noteq> job_id job" "\<forall>j\<in>set post. job_id j \<noteq> job_id job"
    unfolding split by (auto simp: image_iff)
  from ready_job_row [OF assms(1,2)] obtain r where
    r: "select_by_id d (job_id job) = Some r" "retry_count r = retryCount job" by blast
  let ?st1 = "fold ?step pre (d, now)"
  have s1: "select_by_id (fst ?st1) (job_id job) = Some r"
    using fold_processJob_other [OF other(1)] r(1) by simp
  let ?st2 = "?step job ?st1"
  have res: "fst (executeSkill json spawn job (snd ?st1)) = Returned (JsonResult result)"
    using assms(4) by simp
  have s2: "select_by_id (fst ?st2) (job_id job)
      = Some (r\<lparr>post_status := Failed,
                 error_message := Some (if needsAuth result
                                        then ''Authentication required: '' @ template (error result)
                                        else or_else (error result) ''Unknown error''),
                 retry_count := retry_count r + 1,
                 updated_at := snd (executeSkill json spawn job (snd ?st1)) div 1000\<rparr>)"
    using processJob_failure [where job = job and mr = MAX_RETRIES and json = json
        and spawn = spawn and st = ?st1 and result = result, OF assms(3) res assms(5)] s1
    by simp
  have "processJobs json spawn MAX_RETRIES zone d now = fold ?step post ?st2"
    using split by (simp add: processJobs_def Let_def)
  then have "select_by_id (fst (processJobs json spawn MAX_RETRIES zone d now)) (job_id job)
      = select_by_id (fst ?st2) (job_id job)"
    using fold_processJob_other [OF other(2)] by simp
  with s2 r(2) show ?thesis by simp
qed

text \<open>
  A process that exits with a code other than 0: \<open>executeSkill\<close> does not read its output
  and returns a failure of its own, without the flag.
\<close>

lemma executeSkill_nonzero_exit:
  assumes "js_syntax_error json (contentJson job) = None"
      and "fst (spawn job t) = Returned proc"
      and "proc_exitCode proc \<noteq> 0"
  shows "fst (executeSkill json spawn job t)
           = Returned (JsonResult (skill_failure job
               (if proc_stderr proc \<noteq> [] then proc_stderr proc
                else ''Skill exited with code '' @ show_nat (proc_exitCode proc))))"
  using assms by (cases "spawn job t") (simp add: executeSkill_def)

text \<open>
  So for a skill that ends as those under \<open>src/skills\<close> do, any result that is not a
  success, flagged or not, is recorded with the skill's standard error, or with
  \<open>Skill exited with code 1\<close> when that is empty.
\<close>

lemma skill_failure_recorded:
  assumes "distinct (map post_id (posts d))"
      and "job \<in> set (getReadyJobs zone d now)"
      and "int (retryCount job) < MAX_RETRIES"
      and "js_syntax_error json (contentJson job) = None"
      and "\<forall>t. fst (spawn job t) = Returned (skill_exit json logged_out logged_err result)"
      and "\<not> success result"
  shows "\<exists>row. select_by_id (fst (processJobs json spawn MAX_RETRIES zone d now)) (job_id job)
                 = Some row
           \<and> post_status row = Failed
           \<and> retry_count row = retryCount job + 1
           \<and> error_message row
               = Some (if logged_err \<noteq> [] then logged_err else ''Skill exited with code 1'')"
proof -
  let ?msg = "if logged_err \<noteq> [] then logged_err else ''Skill exited with code 1''"
  have one: "show_nat 1 = ''1''" "show_nat (Suc 0) = ''1''"
    by (simp_all add: show_nat.simps digit_def)
  have "\<forall>t. fst (executeSkill json spawn job t) = Returned (JsonResult (skill_failure job ?msg))"
  proof
    fix t
    have "fst (spawn job t) = Returned (skill_exit json logged_out logged_err result)"
      using assms(5) by simp
    from executeSkill_nonzero_exit [where json = json and job = job and spawn = spawn and t = t
        and proc = "skill_exit json logged_out logged_err result", OF assms(4) this]
      assms(6) show
      "fst (executeSkill json spawn job t) = Returned (JsonResult (skill_failure job ?msg))"
      by (simp add: skill_exit_def one)
  qed
  from returned_failure_recorded [OF assms(1,2,3) this] show ?thesis
    by (auto simp: skill_failure_def or_else_def)
qed

text \<open>
  Claim C2: a job whose executor result is flagged \<open>needsAuth\<close> ends failed with an
  authentication-required message and its retry count one higher. The retry count is as
  claimed; the message is not. \<open>processJobs\<close> has the branch (\<open>returned_failure_recorded\<close>),
  but it is reached only when the skill's process exits with 0, and every skill under
  \<open>src/skills\<close> exits with 1 when its result is not a success, so \<open>executeSkill\<close> discards
  the flagged result (\<open>skill_failure_recorded\<close>). Evaluated on the sample store: the
  sample skill reports that authentication is needed; job 4 ends failed, retry count 1,
  with the message \<open>Skill exited with code 1\<close>. Had the same process exited with 0, the
  message would have been \<open>Authentication required: YouTube authentication required. Run
  /auth youtube\<close>.
\<close>

theorem needsAuth_result_discarded:
  "needsAuth example_auth_failure
   \<and> \<not> success example_auth_failure
   \<and> proc_exitCode (skill_exit example_json [] [] example_auth_failure) = 1
   \<and> map_option (\<lambda>row. (post_status row, retry_count row, error_message row))
         (select_by_id (fst (processJobs example_json example_skill 3 zone example_db 86400000)) 4)
       = Some (Failed, 1, Some ''Skill exited with code 1'')
   \<and> map_option (\<lambda>row. (post_status row, retry_count row, error_message row))
         (select_by_id (fst (processJobs example_json zero_exit_skill 3 zone example_db 86400000)) 4)
       = Some (Failed, 1,
           Some ''Authentication required: YouTube authentication required. Run /auth youtube'')"
proof -
  have s: "select_pending example_db 86400000 = [example_unscheduled, example_due]"
    by (simp add: select_pending_def ready_row_def pending_order_def example_defs render_defs)
  have one: "show_nat 1 = ''1''" "show_nat (Suc 0) = ''1''"
    by (simp_all add: show_nat.simps digit_def)
  have x1: "executeSkill example_json example_skill job t
              = (Returned (JsonResult (skill_failure job ''Skill exited with code 1'')), t + 500)"
    for job t
    by (simp add: executeSkill_def skill_exit_def one example_defs)
  have x0: "executeSkill example_json zero_exit_skill job t
              = (Returned (JsonResult example_auth_failure), t + 500)" for job t
    by (simp add: executeSkill_def skill_exit_def example_json_def zero_exit_skill_def)
  have f: "\<not> success example_auth_failure" "needsAuth example_auth_failure"
    "error example_auth_failure = Some ''YouTube authentication required. Run /auth youtube''"
    by (simp_all add: example_auth_failure_def)
  have p1: "processJobs example_json example_skill 3 zone example_db 86400000
      = (failJob (failJob example_db 86400500 1 ''Skill exited with code 1'') 86401000 4
           ''Skill exited with code 1'', 86401000)"
    by (simp add: processJobs_def getReadyJobs_def getPendingJobs_def s processJob_def x1
        skill_failure_def or_else_def rowToJob_def example_unscheduled_def example_due_def)
  have p0: "processJobs example_json zero_exit_skill 3 zone example_db 86400000
      = (failJob
           (failJob example_db 86400500 1
              ''Authentication required: YouTube authentication required. Run /auth youtube'')
           86401000 4
           ''Authentication required: YouTube authentication required. Run /auth youtube'',
         86401000)"
    by (simp add: processJobs_def getReadyJobs_def getPendingJobs_def s processJob_def x0 f
        template_def rowToJob_def example_unscheduled_def example_due_def)
  show ?thesis
    unfolding p1 p0
    by (simp add: f skill_exit_def failJob_def markFailed_def select_by_id_def example_defs)
qed

section \<open>Valid credentials\<close>

lemma find_upsert:
  fixes rows :: "token_row list"
  assumes "token_platform row = p"
  shows "find (\<lambda>r. token_platform r = p)
           (if list_ex (\<lambda>r. token_platform r = p) rows
            then map (\<lambda>r. if token_platform r = p then row else r) rows
            else rows @ [row]) = Some row"
  using assms by (induction rows) auto

lemma saveToken_storable:
  assumes "storable new"
  shows "\<exists>d'. saveToken d t new = Inr d'
           \<and> posts d' = posts d
           \<and> getToken zone d' (tk_platform new)
               = Some (new\<lparr>refreshToken := or_null (refreshToken new),
                           tk_updatedAt := Some (zone (t div 1000))\<rparr>)"
proof -
  from assms obtain access where a: "accessToken new = Some access"
    by (auto simp: storable_def)
  from assms consider "expiresAt new = None" | e where "expiresAt new = Some (ValidDate e)"
    by (cases "expiresAt new") (auto simp: storable_def elim: date_value.exhaust)
  then show ?thesis
  proof cases
    case 1
    let ?row = "\<lparr> token_platform = tk_platform new, access_token = access,
                   refresh_token = or_null (refreshToken new), expires_at = None,
                   token_updated_at = t div 1000 \<rparr>"
    from find_upsert [of ?row "tk_platform new" "tokens d"] show ?thesis
      by (auto simp: saveToken_def getToken_def a 1 Let_def)
  next
    case 2
    let ?row = "\<lparr> token_platform = tk_platform new, access_token = access,
                   refresh_token = or_null (refreshToken new), expires_at = Some e,
                   token_updated_at = t div 1000 \<rparr>"
    from find_upsert [of ?row "tk_platform new" "tokens d"] show ?thesis
      by (auto simp: saveToken_def getToken_def a 2 Let_def)
  qed
qed

lemma saveToken_unstorable:
  assumes "\<not> storable new"
  shows "\<exists>e. saveToken d t new = Inl e"
  using assms
  by (auto simp: storable_def saveToken_def split: option.splits date_value.splits)

text \<open>
  Claim C8, as the code has it. \<open>getValidToken\<close> returns the stored credential as it is
  when it is neither expired nor inside the refresh buffer, without calling the refresh
  function. It returns absent, again without a call and without touching the store, when
  nothing is stored, or when the credential is stale and has no refresh token or no
  refresh function was supplied. When the credential is stale and both are there, the
  refresh function is called exactly once, with the stored credential. If it resolves to
  a credential that can be stored, that one is saved (reading the store back gives it)
  and returned. If it resolves to \<open>null\<close>, throws, or resolves to a credential that cannot
  be stored (\<open>saveToken\<close> throws inside the same \<open>try\<close>), absent is returned and the store
  is as before.
\<close>

theorem getValidToken_behaviour:
  "(getToken zone d platform = None \<longrightarrow>
      getValidToken zone d now platform refreshFn = \<lparr>returned = None, store = d, refresh_calls = []\<rparr>)
   \<and> (\<forall>token. getToken zone d platform = Some token \<longrightarrow>
        (\<not> needsRefresh now token \<and> \<not> isExpired now token \<longrightarrow>
           getValidToken zone d now platform refreshFn
             = \<lparr>returned = Some token, store = d, refresh_calls = []\<rparr>)
      \<and> ((needsRefresh now token \<or> isExpired now token)
           \<and> (\<not> truthy (refreshToken token) \<or> refreshFn = None) \<longrightarrow>
           getValidToken zone d now platform refreshFn
             = \<lparr>returned = None, store = d, refresh_calls = []\<rparr>)
      \<and> (\<forall>f. (needsRefresh now token \<or> isExpired now token)
           \<and> truthy (refreshToken token) \<and> refreshFn = Some f \<longrightarrow>
           refresh_calls (getValidToken zone d now platform refreshFn) = [token]
           \<and> (\<forall>new t. f token now = (Returned (Some new), t) \<and> storable new \<longrightarrow>
                 returned (getValidToken zone d now platform refreshFn) = Some new
                 \<and> saveToken d t new = Inr (store (getValidToken zone d now platform refreshFn))
                 \<and> getToken zone (store (getValidToken zone d now platform refreshFn))
                       (tk_platform new)
                     = Some (new\<lparr>refreshToken := or_null (refreshToken new),
                                 tk_updatedAt := Some (zone (t div 1000))\<rparr>))
           \<and> (\<forall>new t. f token now = (Returned (Some new), t) \<and> \<not> storable new \<longrightarrow>
                 returned (getValidToken zone d now platform refreshFn) = None
                 \<and> store (getValidToken zone d now platform refreshFn) = d)
           \<and> (\<forall>t. f token now = (Returned None, t) \<longrightarrow>
                 returned (getValidToken zone d now platform refreshFn) = None
                 \<and> store (getValidToken zone d now platform refreshFn) = d)
           \<and> (\<forall>err t. f token now = (Threw err, t) \<longrightarrow>
                 returned (getValidToken zone d now platform refreshFn) = None
                 \<and> store (getValidToken zone d now platform refreshFn) = d)))"
proof (intro conjI allI impI)
  fix token f
  assume tok: "getToken zone d platform = Some token"
    and st: "(needsRefresh now token \<or> isExpired now token)
           \<and> truthy (refreshToken token) \<and> refreshFn = Some f"
  show "refresh_calls (getValidToken zone d now platform refreshFn) = [token]"
    using tok st
    by (auto simp: getValidToken_def split: prod.splits outcome.splits option.splits sum.splits)
  {
    fix new t assume r: "f token now = (Returned (Some new), t) \<and> storable new"
    from saveToken_storable [of new d t zone] r obtain d' where
      d': "saveToken d t new = Inr d'"
      "getToken zone d' (tk_platform new)
         = Some (new\<lparr>refreshToken := or_null (refreshToken new),
                     tk_updatedAt := Some (zone (t div 1000))\<rparr>)"
      by blast
    show "returned (getValidToken zone d now platform refreshFn) = Some new"
      using tok st r d'(1) by (auto simp: getValidToken_def)
    have s: "store (getValidToken zone d now platform refreshFn) = d'"
      using tok st r d'(1) by (auto simp: getValidToken_def)
    show "saveToken d t new = Inr (store (getValidToken zone d now platform refreshFn))"
      unfolding s by (rule d'(1))
    show "getToken zone (store (getValidToken zone d now platform refreshFn)) (tk_platform new)
            = Some (new\<lparr>refreshToken := or_null (refreshToken new),
                        tk_updatedAt := Some (zone (t div 1000))\<rparr>)"
      unfolding s by (rule d'(2))
  }
  {
    fix new t assume r: "f token now = (Returned (Some new), t) \<and> \<not> storable new"
    from saveToken_unstorable [of new d t] r obtain e where e: "saveToken d t new = Inl e"
      by blast
    show "returned (getValidToken zone d now platform refreshFn) = None"
      using tok st r e by (auto simp: getValidToken_def)
    show "store (getValidToken zone d now platform refreshFn) = d"
      using tok st r e by (auto simp: getValidToken_def)
  }
  {
    fix t assume r: "f token now = (Returned None, t)"
    show "returned (getValidToken zone d now platform refreshFn) = None"
      using tok st r by (auto simp: getValidToken_def)
    show "store (getValidToken zone d now platform refreshFn) = d"
      using tok st r by (auto simp: getValidToken_def)
  }
  {
    fix err t assume r: "f token now = (Threw err, t)"
    show "returned (getValidToken zone d now platform refreshFn) = None"
      using tok st r by (auto simp: getValidToken_def)
    show "store (getValidToken zone d now platform refreshFn) = d"
      using tok st r by (auto simp: getValidToken_def)
  }
qed (auto simp: getValidToken_def split: option.splits)

theorem getValidToken_behaviour_witness:
  "getValidToken example_zone empty_db 900000 ''youtube'' (Some example_refresher)
     = \<lparr>returned = None, store = empty_db, refresh_calls = []\<rparr>
   \<and> getToken example_zone example_token_db ''youtube'' = Some example_token
   \<and> getValidToken example_zone example_token_db 0 ''youtube'' (Some example_refresher)
       = \<lparr>returned = Some example_token, store = example_token_db, refresh_calls = []\<rparr>
   \<and> needsRefresh 900000 example_token
   \<and> getValidToken example_zone example_token_db 900000 ''youtube'' None
       = \<lparr>returned = None, store = example_token_db, refresh_calls = []\<rparr>
   \<and> refresh_calls (getValidToken example_zone example_token_db 900000 ''youtube''
         (Some example_refresher)) = [example_token]
   \<and> returned (getValidToken example_zone example_token_db 900000 ''youtube''
         (Some example_refresher)) = Some example_refreshed
   \<and> getToken example_zone
         (store (getValidToken example_zone example_token_db 900000 ''youtube''
            (Some example_refresher))) ''youtube''
       = Some (example_refreshed\<lparr>tk_updatedAt := Some 18902000\<rparr>)
   \<and> returned (getValidToken example_zone example_token_db 900000 ''youtube''
         (Some unstorable_refresher)) = None
   \<and> store (getValidToken example_zone example_token_db 900000 ''youtube''
         (Some unstorable_refresher)) = example_token_db
   \<and> returned (getValidToken example_zone example_token_db 900000 ''youtube''
         (Some null_refresher)) = None
   \<and> store (getValidToken example_zone example_token_db 900000 ''youtube''
         (Some null_refresher)) = example_token_db
   \<and> refresh_calls (getValidToken example_zone example_token_db 900000 ''youtube''
         (Some failing_refresher)) = [example_token]
   \<and> returned (getValidToken example_zone example_token_db 900000 ''youtube''
         (Some failing_refresher)) = None
   \<and> store (getValidToken example_zone example_token_db 900000 ''youtube''
         (Some failing_refresher)) = example_token_db"
proof -
  have e: "getToken example_zone empty_db ''youtube'' = None"
    by (simp add: getToken_def example_defs)
  have t: "getToken example_zone example_token_db ''youtube'' = Some example_token"
    by (simp add: getToken_def example_defs)
  have fresh: "\<not> needsRefresh 0 example_token" "\<not> isExpired 0 example_token"
    by (simp_all add: needsRefresh_def isExpired_def REFRESH_BUFFER_MS_def example_defs)
  have stale: "needsRefresh 900000 example_token" "truthy (refreshToken example_token)"
    by (simp_all add: needsRefresh_def REFRESH_BUFFER_MS_def truthy_def example_defs)
  have f: "example_refresher example_token 900000 = (Returned (Some example_refreshed), 902000)"
    "null_refresher example_token 900000 = (Returned None, 902000)"
    "failing_refresher example_token 900000 = (Threw (Error ''network''), 902000)"
    "unstorable_refresher example_token 900000 = (Returned (Some example_unstorable), 902000)"
    by (simp_all add: example_refresher_def null_refresher_def failing_refresher_def
        unstorable_refresher_def)
  have p: "tk_platform example_refreshed = ''youtube''"
    "or_null (refreshToken example_refreshed) = refreshToken example_refreshed"
    "storable example_refreshed" "\<not> storable example_unstorable"
    by (simp_all add: or_null_def truthy_def storable_def createTokenData_def
        calculateExpiration_def new_Date_def MAX_TIME_VALUE_def example_defs)
  note inst = getValidToken_behaviour [of example_zone _ "''youtube''"]
  have a1: "getValidToken example_zone empty_db 900000 ''youtube'' (Some example_refresher)
     = \<lparr>returned = None, store = empty_db, refresh_calls = []\<rparr>"
    using inst [of empty_db 900000 "Some example_refresher"] e by simp
  have a2: "getValidToken example_zone example_token_db 0 ''youtube'' (Some example_refresher)
       = \<lparr>returned = Some example_token, store = example_token_db, refresh_calls = []\<rparr>"
    using inst [of example_token_db 0 "Some example_refresher"] t fresh by simp
  have a3: "getValidToken example_zone example_token_db 900000 ''youtube'' None
       = \<lparr>returned = None, store = example_token_db, refresh_calls = []\<rparr>"
    using inst [of example_token_db 900000 None] t stale by simp
  have a4: "refresh_calls (getValidToken example_zone example_token_db 900000 ''youtube''
         (Some example_refresher)) = [example_token]"
    "returned (getValidToken example_zone example_token_db 900000 ''youtube''
         (Some example_refresher)) = Some example_refreshed"
    "getToken example_zone
         (store (getValidToken example_zone example_token_db 900000 ''youtube''
            (Some example_refresher))) (tk_platform example_refreshed)
       = Some (example_refreshed\<lparr>refreshToken := or_null (refreshToken example_refreshed),
                                  tk_updatedAt := Some (example_zone (902000 div 1000))\<rparr>)"
    using inst [of example_token_db 900000 "Some example_refresher"] t stale f(1) p(3) by blast+
  have a5: "returned (getValidToken example_zone example_token_db 900000 ''youtube''
         (Some null_refresher)) = None"
    "store (getValidToken example_zone example_token_db 900000 ''youtube''
         (Some null_refresher)) = example_token_db"
    using inst [of example_token_db 900000 "Some null_refresher"] t stale f(2) by blast+
  have a6: "refresh_calls (getValidToken example_zone example_token_db 900000 ''youtube''
         (Some failing_refresher)) = [example_token]"
    "returned (getValidToken example_zone example_token_db 900000 ''youtube''
         (Some failing_refresher)) = None"
    "store (getValidToken example_zone example_token_db 900000 ''youtube''
         (Some failing_refresher)) = example_token_db"
    using inst [of example_token_db 900000 "Some failing_refresher"] t stale f(3) by blast+
  have a7: "getToken example_zone
         (store (getValidToken example_zone example_token_db 900000 ''youtube''
            (Some example_refresher))) ''youtube''
       = Some (example_refreshed\<lparr>tk_updatedAt := Some 18902000\<rparr>)"
    using a4(3) by (simp add: p example_zone_def)
  have a8: "returned (getValidToken example_zone example_token_db 900000 ''youtube''
         (Some unstorable_refresher)) = None"
    "store (getValidToken example_zone example_token_db 900000 ''youtube''
         (Some unstorable_refresher)) = example_token_db"
    using inst [of example_token_db 900000 "Some unstorable_refresher"] t stale f(4) p(4)
    by blast+
  show ?thesis
    using a1 a2 a3 a4(1,2) a5 a6 a7 a8 t stale(1) by blast
qed

text \<open>
  The claim as it was stated has the refreshed credential saved and returned whenever
  the refresh function resolves to one. It fails when that credential cannot be stored:
  the sample credential is stale and has a refresh token, the refresh function resolves
  to a credential whose expiry is out of the range of a \<open>Date\<close>, and \<open>getValidToken\<close>
  returns absent and leaves the store as it was.
\<close>

theorem refreshed_credential_not_returned:
  "getToken example_zone example_token_db ''youtube'' = Some example_token
   \<and> needsRefresh 900000 example_token
   \<and> truthy (refreshToken example_token)
   \<and> fst (unstorable_refresher example_token 900000) = Returned (Some example_unstorable)
   \<and> returned (getValidToken example_zone example_token_db 900000 ''youtube''
        (Some unstorable_refresher)) \<noteq> Some example_unstorable
   \<and> returned (getValidToken example_zone example_token_db 900000 ''youtube''
        (Some unstorable_refresher)) = None
   \<and> store (getValidToken example_zone example_token_db 900000 ''youtube''
        (Some unstorable_refresher)) = example_token_db"
  by (simp add: getValidToken_def getToken_def needsRefresh_def isExpired_def
      REFRESH_BUFFER_MS_def truthy_def saveToken_def createTokenData_def
      calculateExpiration_def new_Date_def MAX_TIME_VALUE_def example_defs)

section \<open>The handshake\<close>

text \<open>
  Claim C3: for a YouTube handshake the verifier stored under the state token and the
  challenge in the authorization URL are a PKCE pair, and the stored verifier is sent to
  the token endpoint. The code does neither. \<open>generateYouTubeAuthUrl\<close> calls
  \<open>generatePKCE\<close> twice: the challenge in the URL is the hash of the first draw, and the
  verifier it stores is the second, unrelated one. The callback then removes the session
  with \<open>verifyState\<close> before \<open>exchangeYouTubeCode\<close> looks it up, so the one token request
  carries no \<open>code_verifier\<close> at all. Evaluated on a full handshake, for every hash
  function and every answer of the token endpoint:
\<close>

theorem youtube_pkce_mismatch:
  "youtube_handshake S256 fetch example_env d now uid ''verifier-one'' ''5f3a'' ''verifier-two''
       ''auth-code''
     = Some (Some (S256 ''verifier-one''), Some ''verifier-two'',
             [None])"
proof -
  let ?request = "\<lparr>rq_method = ''POST'', rq_url = ''https://oauth2.googleapis.com/token'',
        rq_params = [(''client_id'', ''client''), (''client_secret'', ''secret''),
          (''code'', ''auth-code''),
          (''redirect_uri'', ''http://localhost:3000/auth/youtube/callback''),
          (''grant_type'', ''authorization_code'')]\<rparr>"
  have sent: "fst (exchangeYouTubeCode fetch example_env Map.empty d now ''auth-code'' ''5f3a'')
                = [?request]"
    by (cases "fetch ?request")
      (simp_all add: exchangeYouTubeCode_def truthy_def example_env_def Let_def)
  have "rp_sent (handleRequest fetch example_env
                   (Map.empty(''5f3a'' \<mapsto> \<lparr>os_platform = ''youtube'', userId = uid,
                                             codeVerifier = Some ''verifier-two''\<rparr>))
                   d now (Callback ''youtube'' (Some ''auth-code'') (Some ''5f3a'') None))
          = [?request]"
    using sent
    by (cases "exchangeYouTubeCode fetch example_env Map.empty d now ''auth-code'' ''5f3a''")
      (auto simp: handleRequest_def verifyState_def truthy_def split: sum.splits)
  then show ?thesis
    by (simp add: youtube_handshake_def generateYouTubeAuthUrl_def generateState_def
        generatePKCE_def truthy_def example_env_def Let_def)
qed

lemma generateState_issues:
  "fst (generateState states platform uid draw) (snd (generateState states platform uid draw))
     = Some \<lparr>os_platform = platform, userId = uid, codeVerifier = None\<rparr>"
  by (simp add: generateState_def)

lemma generateYouTubeAuthUrl_issues:
  assumes "generateYouTubeAuthUrl S256 e states uid draw1 draw2 draw3 = Inr (u, states')"
  shows "map_of (url_params u) ''state'' = Some draw2
       \<and> states' draw2 = Some \<lparr>os_platform = ''youtube'', userId = uid,
                                 codeVerifier = Some draw3\<rparr>"
  using assms
  by (auto simp: generateYouTubeAuthUrl_def generateState_def generatePKCE_def Let_def
      split: if_splits)

lemma verifyState_unknown: "states tok = None \<Longrightarrow> verifyState states tok = (None, states)"
  by (simp add: verifyState_def)

lemma handle_unknown_state:
  assumes "states tok = None"
  shows "rp_status (handleRequest fetch e states d now (Callback p code (Some tok) err)) = 400
       \<and> rp_states (handleRequest fetch e states d now (Callback p code (Some tok) err)) = states
       \<and> rp_db (handleRequest fetch e states d now (Callback p code (Some tok) err)) = d
       \<and> rp_sent (handleRequest fetch e states d now (Callback p code (Some tok) err)) = []
       \<and> rp_page (handleRequest fetch e states d now (Callback p code (Some tok) err))
           = (if truthy err then AuthenticationFailed
              else if \<not> truthy code \<or> tok = [] then InvalidRequest
              else InvalidState)"
  using assms by (simp add: handleRequest_def verifyState_unknown truthy_def)

lemma handle_known_state:
  assumes "states tok = Some sess" "truthy code" "tok \<noteq> []" "\<not> truthy err"
  shows "rp_states (handleRequest fetch e states d now (Callback p code (Some tok) err))
           = states(tok := None)
       \<and> (rp_status (handleRequest fetch e states d now (Callback p code (Some tok) err)) = 200
            \<and> rp_page (handleRequest fetch e states d now (Callback p code (Some tok) err))
                = AuthenticationSuccessful
          \<or> rp_status (handleRequest fetch e states d now (Callback p code (Some tok) err)) = 500
            \<and> (\<exists>m. rp_page (handleRequest fetch e states d now (Callback p code (Some tok) err))
                = AuthenticationError m))"
  using assms
  by (auto simp: handleRequest_def verifyState_def truthy_def Let_def
      split: prod.splits sum.splits)

text \<open>
  Claim C4: a state token is consumed at most once. For any session stored under a
  token, as every \<open>generate\<dots>AuthUrl\<close> function stores one when it issues the token
  (\<open>generateState_issues\<close>, \<open>generateYouTubeAuthUrl_issues\<close>), the first callback that carries the
  token (with a code and without a provider error) finds the session and removes it, and
  ends in the success page (200) or, when the exchange fails, in the error page (500).
  Any later callback with the same token gets 400, the Invalid State page when it is
  otherwise well formed, leaves the session map and the store as they are, and sends
  nothing to a token endpoint.
\<close>

theorem state_token_consumed_once:
  assumes "states tok = Some sess"
      and "truthy code" "tok \<noteq> []" "\<not> truthy err"
      and "first = handleRequest fetch e states d now (Callback p code (Some tok) err)"
      and "second = handleRequest fetch' e' (rp_states first) (rp_db first) now'
                      (Callback p' code' (Some tok) err')"
  shows "rp_states first = states(tok := None)
       \<and> (rp_status first = 200 \<and> rp_page first = AuthenticationSuccessful
          \<or> rp_status first = 500 \<and> (\<exists>m. rp_page first = AuthenticationError m))
       \<and> rp_status second = 400
       \<and> (truthy code' \<and> \<not> truthy err' \<longrightarrow> rp_page second = InvalidState)
       \<and> rp_states second = rp_states first
       \<and> rp_db second = rp_db first
       \<and> rp_sent second = []"
proof -
  have f: "rp_states first = states(tok := None)"
    "rp_status first = 200 \<and> rp_page first = AuthenticationSuccessful
          \<or> rp_status first = 500 \<and> (\<exists>m. rp_page first = AuthenticationError m)"
    using handle_known_state [where states = states and tok = tok and fetch = fetch and e = e
        and d = d and now = now and p = p, OF assms(1,2,3,4)]
    unfolding assms(5) by blast+
  have gone: "rp_states first tok = None" by (simp add: f(1))
  show ?thesis
    using handle_unknown_state [where states = "rp_states first" and tok = tok and fetch = fetch'
        and e = e' and d = "rp_db first" and now = now' and p = p' and code = code'
        and err = err', OF gone] f assms(3)
    unfolding assms(6) by simp
qed

theorem state_token_consumed_once_witness:
  "youtube_states ''5f3a''
     = Some \<lparr>os_platform = ''youtube'', userId = ''42'', codeVerifier = Some ''verifier-two''\<rparr>
   \<and> truthy (Some ''auth-code'')
   \<and> rp_status (handleRequest example_fetch example_env youtube_states empty_db 0
                  (Callback ''youtube'' (Some ''auth-code'') (Some ''5f3a'') None)) = 200
   \<and> rp_states (handleRequest example_fetch example_env youtube_states empty_db 0
                  (Callback ''youtube'' (Some ''auth-code'') (Some ''5f3a'') None)) ''5f3a'' = None
   \<and> rp_page (handleRequest example_fetch example_env
                (rp_states (handleRequest example_fetch example_env youtube_states empty_db 0
                  (Callback ''youtube'' (Some ''auth-code'') (Some ''5f3a'') None)))
                (rp_db (handleRequest example_fetch example_env youtube_states empty_db 0
                  (Callback ''youtube'' (Some ''auth-code'') (Some ''5f3a'') None)))
                5000 (Callback ''youtube'' (Some ''auth-code'') (Some ''5f3a'') None))
       = InvalidState
   \<and> rp_status (handleRequest example_fetch example_env
                (rp_states (handleRequest example_fetch example_env youtube_states empty_db 0
                  (Callback ''youtube'' (Some ''auth-code'') (Some ''5f3a'') None)))
                (rp_db (handleRequest example_fetch example_env youtube_states empty_db 0
                  (Callback ''youtube'' (Some ''auth-code'') (Some ''5f3a'') None)))
                5000 (Callback ''youtube'' (Some ''auth-code'') (Some ''5f3a'') None))
       = 400"
proof -
  let ?sess = "\<lparr>os_platform = ''youtube'', userId = ''42'', codeVerifier = Some ''verifier-two''\<rparr>"
  let ?first = "handleRequest example_fetch example_env youtube_states empty_db 0
                  (Callback ''youtube'' (Some ''auth-code'') (Some ''5f3a'') None)"
  let ?second = "handleRequest example_fetch example_env (rp_states ?first) (rp_db ?first) 5000
                   (Callback ''youtube'' (Some ''auth-code'') (Some ''5f3a'') None)"
  have y: "youtube_states = Map.empty(''5f3a'' \<mapsto> ?sess)"
    by (simp add: youtube_states_def generateYouTubeAuthUrl_def generateState_def
        generatePKCE_def truthy_def example_env_def Let_def)
  have g: "youtube_states ''5f3a'' = Some ?sess"
    by (simp add: y)
  have c: "truthy (Some ''auth-code'')" "''5f3a'' \<noteq> []" "\<not> truthy None"
    by (simp_all add: truthy_def)
  have ok: "rp_status ?first = 200"
    by (simp add: y handleRequest_def verifyState_def exchangeYouTubeCode_def storeToken_def
        saveToken_def createTokenData_def calculateExpiration_def new_Date_def
        MAX_TIME_VALUE_def truthy_def Let_def example_defs)
  note once = state_token_consumed_once [where states = youtube_states and tok = "''5f3a''"
        and sess = ?sess and code = "Some ''auth-code''" and err = None
        and fetch = example_fetch and e = example_env and d = empty_db and now = 0
        and p = "''youtube''" and fetch' = example_fetch and e' = example_env and now' = 5000
        and p' = "''youtube''" and code' = "Some ''auth-code''" and err' = None,
      OF g c refl refl]
  from once have "rp_states ?first = youtube_states(''5f3a'' := None)" by blast
  then have gone: "rp_states ?first ''5f3a'' = None" by simp
  from once c have inv: "rp_page ?second = InvalidState" by blast
  from once have bad: "rp_status ?second = 400" by blast
  show ?thesis
    using g c(1) ok gone inv bad by blast
qed

section \<open>Reading back a job without a schedule time\<close>

text \<open>
  Claim C10: a row stored with \<open>scheduled_at\<close> \<open>NULL\<close> is reported by \<open>getJobById\<close>,
  \<open>getPendingJobs\<close> and \<open>listJobs\<close> with \<open>scheduledAt\<close> equal to the clock at the moment of
  the read, never absent. What is read is what would be read had the row been scheduled
  at that very instant, and a read at another time reports another \<open>scheduledAt\<close>.
  \<open>addPost\<close> without a schedule time stores such a row.
\<close>

theorem null_schedule_reads_as_now:
  assumes "scheduled_at r = None"
  shows "(select_by_id d i = Some r \<longrightarrow> getJobById zone d now i = Some (rowToJob zone now r))
       \<and> length (getPendingJobs zone d now) = length (select_pending d now)
       \<and> (\<forall>k<length (select_pending d now).
             select_pending d now ! k = r \<longrightarrow> getPendingJobs zone d now ! k = rowToJob zone now r)
       \<and> length (listJobs zone d now options) = length (select_list d options)
       \<and> (\<forall>k<length (select_list d options).
             select_list d options ! k = r \<longrightarrow> listJobs zone d now options ! k = rowToJob zone now r)
       \<and> scheduledAt (rowToJob zone now r) = now
       \<and> rowToJob zone now r = rowToJob zone now (r\<lparr>scheduled_at := Some now\<rparr>)
       \<and> (later \<noteq> now \<longrightarrow> scheduledAt (rowToJob zone later r) \<noteq> scheduledAt (rowToJob zone now r))
       \<and> scheduled_at (the (select_by_id (fst (addPost d t p a c None f))
                                         (snd (addPost d t p a c None f)))) = None"
  using assms
  by (auto simp: getJobById_def getPendingJobs_def listJobs_def rowToJob_def select_addPost)

theorem null_schedule_reads_as_now_witness:
  "scheduled_at example_unscheduled = None
   \<and> map_option scheduledAt (getJobById example_zone example_db 3600000 1) = Some 3600000
   \<and> map_option scheduledAt (getJobById example_zone example_db 86400000 1) = Some 86400000
   \<and> map scheduledAt (getPendingJobs example_zone example_db 3600000) = [3600000]
   \<and> map scheduledAt (listJobs example_zone example_db 3600000 None) = [1000, 5000, 36000000, 3600000]
   \<and> rowToJob example_zone 3600000 example_unscheduled
       = rowToJob example_zone 3600000 (example_unscheduled\<lparr>scheduled_at := Some 3600000\<rparr>)"
proof -
  have h: "scheduled_at example_unscheduled = None"
    by (simp add: example_defs)
  have s: "select_by_id example_db 1 = Some example_unscheduled"
    by (simp add: select_by_id_def example_defs)
  have p: "select_pending example_db 3600000 = [example_unscheduled]"
    by (simp add: select_pending_def ready_row_def pending_order_def example_defs render_defs)
  have l: "select_list example_db None
             = [example_due, example_completed, example_failed, example_unscheduled]"
    by (simp add: select_list_def example_defs render_defs)
  have o: "scheduled_at example_due = Some 1000" "scheduled_at example_completed = Some 5000"
    "scheduled_at example_failed = Some 36000000"
    by (simp_all add: example_defs)
  from null_schedule_reads_as_now [OF h, where d = example_db and i = 1 and zone = example_zone
        and now = 3600000 and options = None and later = 86400000]
    null_schedule_reads_as_now [OF h, where d = example_db and i = 1 and zone = example_zone
        and now = 86400000 and options = None and later = 3600000]
  show ?thesis using h s
    by (simp add: getPendingJobs_def listJobs_def p l rowToJob_def o)
qed

end
